theory Spec2Isabelle
  imports Complex_Main "HOL-Library.AList" "HOL-Library.Sublist"
begin

chapter \<open>The model\<close>

section \<open>Loosely typed values and the built-ins the services call\<close>

text \<open>
  Scraped payloads, result items and competitor profiles are plain JavaScript values.
  They are modelled by the datatype \<open>json\<close>; an object is an association list in
  insertion order, a missing property reads as \<open>JUndefined\<close>.  Numbers are the integers
  (the payloads carry counts), strings are ASCII character lists.  A raised exception is
  a value of type \<open>error\<close> on the left of a sum; for an error that the engine raises the
  message gives the substance of the engine's wording.
\<close>

datatype json =
    JUndefined
  | JNull
  | JBool bool
  | JNum int
  | JStr string
  | JArr "json list"
  | JObj "(string \<times> json) list"

datatype error = TypeError string | Error string

fun error_message :: "error \<Rightarrow> string" where
  "error_message (TypeError m) = m"
| "error_message (Error m) = m"

text \<open>\<open>!v\<close> is \<open>\<not> truthy v\<close>; \<open>a || b\<close> is \<open>js_or a b\<close>.\<close>

fun truthy :: "json \<Rightarrow> bool" where
  "truthy JUndefined = False"
| "truthy JNull = False"
| "truthy (JBool b) = b"
| "truthy (JNum n) = (n \<noteq> 0)"
| "truthy (JStr s) = (s \<noteq> [])"
| "truthy (JArr xs) = True"
| "truthy (JObj fs) = True"

definition js_or :: "json \<Rightarrow> json \<Rightarrow> json" where
  "js_or a b = (if truthy a then a else b)"

text \<open>
  Property access \<open>v.k\<close> for the property names the services read (none of them is a
  built-in member of a string, number or array): it throws on \<open>undefined\<close> and \<open>null\<close>,
  reads the member of an object, and is \<open>undefined\<close> on every other value.
\<close>

fun getProp :: "json \<Rightarrow> string \<Rightarrow> error + json" where
  "getProp JUndefined k = Inl (TypeError (''Cannot read properties of undefined (reading '' @ k @ '')''))"
| "getProp JNull k = Inl (TypeError (''Cannot read properties of null (reading '' @ k @ '')''))"
| "getProp (JObj fs) k = Inr (case map_of fs k of Some v \<Rightarrow> v | None \<Rightarrow> JUndefined)"
| "getProp v k = Inr JUndefined"

text \<open>The same access where the receiver is known to be neither \<open>undefined\<close> nor \<open>null\<close>.\<close>

fun member_of :: "json \<Rightarrow> string \<Rightarrow> json" where
  "member_of (JObj fs) k = (case map_of fs k of Some v \<Rightarrow> v | None \<Rightarrow> JUndefined)"
| "member_of v k = JUndefined"

text \<open>
  The services also use plain objects as maps from a key to an entry.  Reading
  \<open>store[key]\<close> for a key that the store does not own finds the member of that name of
  \<open>Object.prototype\<close>, when there is one: a built-in function, or for \<open>__proto__\<close> the
  prototype itself.  Each of them is truthy, and none has a member \<open>sources\<close> or \<open>content\<close>.
\<close>

definition prototype_members :: "string list" where
  "prototype_members =
     [''constructor'', ''__defineGetter__'', ''__defineSetter__'', ''hasOwnProperty'',
      ''__lookupGetter__'', ''__lookupSetter__'', ''isPrototypeOf'',
      ''propertyIsEnumerable'', ''toString'', ''valueOf'', ''__proto__'',
      ''toLocaleString'']"

text \<open>A key that a store does not own and that names such a member.\<close>

definition inherited_key :: "(string \<rightharpoonup> 'v) \<Rightarrow> string \<Rightarrow> bool" where
  "inherited_key m k = (m k = None \<and> k \<in> set prototype_members)"

subsection \<open>Strings\<close>

definition upper_letters :: string where
  "upper_letters = ''ABCDEFGHIJKLMNOPQRSTUVWXYZ''"

definition lower_letters :: string where
  "lower_letters = ''abcdefghijklmnopqrstuvwxyz''"

definition lower_char :: "char \<Rightarrow> char" where
  "lower_char c = (case map_of (zip upper_letters lower_letters) c of Some d \<Rightarrow> d | None \<Rightarrow> c)"

definition toLowerCase :: "string \<Rightarrow> string" where
  "toLowerCase s = map lower_char s"

text \<open>\<open>t.includes(k)\<close>: \<open>k\<close> occurs in \<open>t\<close> as a contiguous substring.\<close>

fun str_includes :: "string \<Rightarrow> string \<Rightarrow> bool" where
  "str_includes [] k = (k = [])"
| "str_includes (c # t) k = (prefix k (c # t) \<or> str_includes t k)"

text \<open>The regular-expression classes \<open>\w\<close> and \<open>\s\<close> on ASCII.\<close>

definition is_word_char :: "char \<Rightarrow> bool" where
  "is_word_char c = (c \<in> set (upper_letters @ lower_letters @ ''0123456789_''))"

definition is_space_char :: "char \<Rightarrow> bool" where
  "is_space_char c = (c \<in> set [CHR '' '', CHR 0x09, CHR 0x0A, CHR 0x0B, CHR 0x0C, CHR 0x0D])"

subsection \<open>Serialisation\<close>

text \<open>
  \<open>JSON.stringify\<close>: strings are quoted and escaped, an \<open>undefined\<close> array element prints
  as \<open>null\<close>, an object member whose value is \<open>undefined\<close> is left out, members print in
  insertion order.  \<open>JSON.stringify(undefined)\<close> is \<open>undefined\<close>, not a string.
\<close>

definition digit_char :: "int \<Rightarrow> char" where
  "digit_char d = ''0123456789abcdef'' ! nat (d mod 16)"

function show_digits :: "int \<Rightarrow> string" where
  "show_digits n =
     (if n < 10 then [digit_char n] else show_digits (n div 10) @ [digit_char (n mod 10)])"
  by pat_completeness auto
termination
  by (relation "measure nat") auto

declare show_digits.simps [simp del]

definition show_int :: "int \<Rightarrow> string" where
  "show_int i = (if i < 0 then CHR ''-'' # show_digits (- i) else show_digits i)"

definition escape_char :: "char \<Rightarrow> string" where
  "escape_char c =
     (if c = CHR 0x22 then [CHR 0x5C, CHR 0x22]
      else if c = CHR 0x5C then [CHR 0x5C, CHR 0x5C]
      else if c = CHR 0x08 then [CHR 0x5C, CHR ''b'']
      else if c = CHR 0x0C then [CHR 0x5C, CHR ''f'']
      else if c = CHR 0x0A then [CHR 0x5C, CHR ''n'']
      else if c = CHR 0x0D then [CHR 0x5C, CHR ''r'']
      else if c = CHR 0x09 then [CHR 0x5C, CHR ''t'']
      else if (of_char c :: nat) < 32
        then [CHR 0x5C, CHR ''u'', CHR ''0'', CHR ''0'',
              digit_char (of_char c div 16), digit_char (of_char c mod 16)]
      else [c])"

definition quote :: "string \<Rightarrow> string" where
  "quote s = [CHR 0x22] @ concat (map escape_char s) @ [CHR 0x22]"

fun join :: "string \<Rightarrow> string list \<Rightarrow> string" where
  "join sep [] = []"
| "join sep [x] = x"
| "join sep (x # y # ys) = x @ sep @ join sep (y # ys)"

fun serialize :: "json \<Rightarrow> string"
  and serialize_elements :: "json list \<Rightarrow> string list"
  and serialize_members :: "(string \<times> json) list \<Rightarrow> string list" where
  "serialize JUndefined = ''null''"
| "serialize JNull = ''null''"
| "serialize (JBool b) = (if b then ''true'' else ''false'')"
| "serialize (JNum n) = show_int n"
| "serialize (JStr s) = quote s"
| "serialize (JArr xs) = ''['' @ join '','' (serialize_elements xs) @ '']''"
| "serialize (JObj fs) = ''{'' @ join '','' (serialize_members fs) @ ''}''"
| "serialize_elements [] = []"
| "serialize_elements (x # xs) = serialize x # serialize_elements xs"
| "serialize_members [] = []"
| "serialize_members ((k, v) # fs) =
     (if v = JUndefined then serialize_members fs
      else (quote k @ '':'' @ serialize v) # serialize_members fs)"

definition JSON_stringify :: "json \<Rightarrow> string option" where
  "JSON_stringify v = (if v = JUndefined then None else Some (serialize v))"

subsection \<open>Numbers with two decimals\<close>

text \<open>
  Scores and amounts are IEEE doubles in the source; the model computes with exact
  rationals.  \<open>parseFloat(x.toFixed(2))\<close> is the nearest multiple of \<open>1/100\<close>, a tie going
  away from zero; \<open>Math.round(x * 100) / 100\<close> sends a tie upwards.
\<close>

definition toFixed2 :: "rat \<Rightarrow> rat" where
  "toFixed2 x = sgn x * of_int (round (\<bar>x\<bar> * 100)) / 100"

definition round_cents :: "rat \<Rightarrow> rat" where
  "round_cents x = of_int (round (x * 100)) / 100"

section \<open>Trend analysis: sentiment\<close>

definition positiveWords :: "string list" where
  "positiveWords =
     [''good'', ''great'', ''excellent'', ''amazing'', ''awesome'', ''fantastic'',
      ''wonderful'', ''best'', ''love'', ''perfect'', ''recommend'', ''positive'',
      ''happy'', ''satisfied'', ''quality'', ''easy'', ''helpful'', ''valuable'']"

definition negativeWords :: "string list" where
  "negativeWords =
     [''bad'', ''poor'', ''terrible'', ''awful'', ''horrible'', ''worst'',
      ''hate'', ''difficult'', ''negative'', ''problem'', ''issue'', ''disappointing'',
      ''waste'', ''expensive'', ''overpriced'', ''avoid'', ''broken'', ''useless'']"

text \<open>
  \<open>\b\<close> holds between two neighbouring positions exactly when one side is a word
  character and the other is not (the ends of the text count as non-word).
\<close>

definition word_side :: "char option \<Rightarrow> bool" where
  "word_side c = (case c of None \<Rightarrow> False | Some x \<Rightarrow> is_word_char x)"

definition boundary :: "char option \<Rightarrow> char option \<Rightarrow> bool" where
  "boundary before after = (word_side before \<noteq> word_side after)"

definition first_char :: "string \<Rightarrow> char option" where
  "first_char s = (case s of [] \<Rightarrow> None | c # _ \<Rightarrow> Some c)"

text \<open>
  Whether \<open>\bword\b\<close> matches at the head of \<open>text\<close>, the character before it being
  \<open>before\<close>.
\<close>

definition matches_here :: "string \<Rightarrow> char option \<Rightarrow> string \<Rightarrow> bool" where
  "matches_here word before text =
     (if word \<noteq> [] \<and> prefix word text
      then boundary before (first_char text)
           \<and> boundary (Some (last word)) (first_char (drop (length word) text))
      else False)"

text \<open>
  The number of matches of the global regular expression \<open>\bword\b\<close> in a text
  (\<open>text.match(regex).length\<close>, or no count when the result is \<open>null\<close>): the scan
  resumes after the end of each match.
\<close>

function count_matches :: "string \<Rightarrow> char option \<Rightarrow> string \<Rightarrow> nat" where
  "count_matches word before [] = 0"
| "count_matches word before (c # cs) =
     (if matches_here word before (c # cs)
      then Suc (count_matches word (Some (last word)) (drop (length word) (c # cs)))
      else count_matches word (Some c) cs)"
  by pat_completeness auto
termination
  by (relation "measure (\<lambda>(word, before, text). length text)")
     (auto simp: matches_here_def split: if_splits)

definition count_words :: "string list \<Rightarrow> string \<Rightarrow> nat" where
  "count_words ws text = sum_list (map (\<lambda>word. count_matches word None text) ws)"

definition positiveCount :: "json \<Rightarrow> nat" where
  "positiveCount results = count_words positiveWords (toLowerCase (serialize results))"

definition negativeCount :: "json \<Rightarrow> nat" where
  "negativeCount results = count_words negativeWords (toLowerCase (serialize results))"

text \<open>
  \<open>calculateSentiment\<close>.  The only statement of its \<open>try\<close> block that can throw is
  \<open>.toLowerCase()\<close> on the \<open>undefined\<close> that \<open>JSON.stringify(undefined)\<close> returns; the
  \<open>catch\<close> returns \<open>0\<close>.
\<close>

definition calculateSentiment :: "json \<Rightarrow> rat" where
  "calculateSentiment results =
     (case JSON_stringify results of
        None \<Rightarrow> 0
      | Some s \<Rightarrow>
          (let text = toLowerCase s;
               pos = count_words positiveWords text;
               neg = count_words negativeWords text;
               total = pos + neg
           in if total = 0 then 0
              else toFixed2 ((of_nat pos - of_nat neg) / of_nat total)))"

text \<open>
  The score as the specification words it: the difference of the two counts over their
  sum, and \<open>0\<close> when both are zero.
\<close>

definition sentiment_ratio :: "json \<Rightarrow> rat" where
  "sentiment_ratio results =
     (if positiveCount results + negativeCount results = 0 then 0
      else (of_nat (positiveCount results) - of_nat (negativeCount results))
           / of_nat (positiveCount results + negativeCount results))"

section \<open>The environment: clock, identifiers, random numbers, browser storage\<close>

text \<open>
  \<open>new Date().toISOString()\<close>, the suffix \<open>${Date.now()}_${Math.random()...}\<close> of a
  generated identifier and \<open>Math.random()\<close> are read from three oracles; every read
  advances \<open>tick\<close>, so that successive reads may differ.
\<close>

record world =
  clock :: "nat \<Rightarrow> string"
  uid :: "nat \<Rightarrow> string"
  random :: "nat \<Rightarrow> rat"
  tick :: nat

definition now :: "'a world_scheme \<Rightarrow> string \<times> 'a world_scheme" where
  "now w = (clock w (tick w), w\<lparr>tick := Suc (tick w)\<rparr>)"

definition fresh_uid :: "'a world_scheme \<Rightarrow> string \<times> 'a world_scheme" where
  "fresh_uid w = (uid w (tick w), w\<lparr>tick := Suc (tick w)\<rparr>)"

definition Math_random :: "'a world_scheme \<Rightarrow> rat \<times> 'a world_scheme" where
  "Math_random w = (random w (tick w), w\<lparr>tick := Suc (tick w)\<rparr>)"

text \<open>
  What \<open>localStorage.getItem\<close> finds under a service's key: nothing, a text that
  \<open>JSON.parse\<close> rejects, or a document.  A document is kept as the data it was written
  from: \<open>JSON.parse (JSON.stringify d)\<close> is taken to be \<open>d\<close>, and \<open>setItem\<close> to succeed.
  The field \<open>localStorage\<close> is \<open>None\<close> where there is no \<open>window.localStorage\<close>.  A service
  keeps the flag \<open>initialized\<close>.
\<close>

datatype 'd stored = NoItem | Unparsable | Document 'd

record 'd service = world +
  initialized :: bool
  localStorage :: "'d stored option"

text \<open>A record of the Record Store, as \<open>storeData\<close> builds it.\<close>

record item =
  item_id :: string
  category :: string
  source :: string
  timestamp :: string
  data :: json

text \<open>What a pass returns: \<open>{success, message, ...}\<close>.\<close>

record pass_result =
  success :: bool
  message :: string

text \<open>
  \<open>forEach\<close> with a callback that may throw: the callback returns \<open>Some e\<close> with the state
  it had reached when it threw \<open>e\<close>; the exception leaves the loop, and the items before
  it have had their effect.
\<close>

fun forEach :: "('a \<Rightarrow> 's \<Rightarrow> error option \<times> 's) \<Rightarrow> 'a list \<Rightarrow> 's \<Rightarrow> error option \<times> 's" where
  "forEach f [] s = (None, s)"
| "forEach f (x # xs) s =
     (case f x s of (Some e, s') \<Rightarrow> (Some e, s') | (None, s') \<Rightarrow> forEach f xs s')"

section \<open>Trend analysis service\<close>

record niche_data =
  popularity :: int
  growth :: rat
  niche_keywords :: "string list"
  niche_products :: "json list"
  niche_lastUpdated :: string

record keyword_data =
  mentions :: int
  sentiment :: rat
  relatedKeywords :: "string list"
  sources :: "string list"
  lastUpdated :: string

text \<open>
  An entry of \<open>trendData.products\<close> is \<open>{...product, mentions, sentiment, ...}\<close>: the
  members spread from the extracted product are kept together in \<open>product\<close>.
\<close>

record product_data = keyword_data +
  product :: json

text \<open>
  \<open>trendData\<close>, with its members \<open>niches\<close>, \<open>keywords\<close>, \<open>products\<close> and \<open>timeframes\<close>.
  \<open>niches\<close> keeps its insertion order, which \<open>calculateNicheGrowth\<close> follows; \<open>keywords\<close>
  and \<open>products\<close> are only looked up by key; \<open>timeframes\<close> belongs to the by-timeframe
  pass.
\<close>

record 'tf trend_data =
  trend_niches :: "(string \<times> niche_data) list"
  trend_keywords :: "string \<rightharpoonup> keyword_data"
  trend_products :: "string \<rightharpoonup> product_data"
  trend_timeframes :: 'tf

text \<open>
  The service: its data, and the sort of the engine it runs on, which \<open>extractKeywords\<close>
  applies to words with their counts (\<open>None\<close> for a count that is no number).
\<close>

type_synonym engine = "(string \<times> nat option) list \<Rightarrow> (string \<times> nat option) list"

record 'tf trend_service = "'tf trend_data service" +
  trendData :: "'tf trend_data"
  engine_sort :: engine

definition preferredNiches :: "string list" where
  "preferredNiches =
     [''Survival & Emergency Preparedness'',
      ''DIY & Home Improvement'',
      ''Personal Finance & Making Money Online'',
      ''E-Learning & Skill-Building'',
      ''AI & Automation Tools'']"

text \<open>The constructor's state, in a given environment.\<close>

definition TrendAnalysisService ::
  "(nat \<Rightarrow> string) \<Rightarrow> (nat \<Rightarrow> string) \<Rightarrow> (nat \<Rightarrow> rat) \<Rightarrow> engine
    \<Rightarrow> 'tf trend_data stored option \<Rightarrow> 'tf \<Rightarrow> 'tf trend_service" where
  "TrendAnalysisService c u r srt st tf0 =
     \<lparr>clock = c, uid = u, random = r, tick = 0, initialized = False, localStorage = st,
      trendData = \<lparr>trend_niches = [], trend_keywords = Map.empty, trend_products = Map.empty,
                   trend_timeframes = tf0\<rparr>,
      engine_sort = srt\<rparr>"

definition trend_initialize :: "'tf trend_service \<Rightarrow> bool \<times> 'tf trend_service" where
  "trend_initialize s =
     (case localStorage s of
        None \<Rightarrow> (True, s\<lparr>initialized := True\<rparr>)
      | Some NoItem \<Rightarrow> (True, s\<lparr>initialized := True\<rparr>)
      | Some Unparsable \<Rightarrow> (False, s)
      | Some (Document d) \<Rightarrow> (True, s\<lparr>initialized := True, trendData := d\<rparr>))"

definition trend_saveToStorage :: "'tf trend_service \<Rightarrow> bool \<times> 'tf trend_service" where
  "trend_saveToStorage s =
     (case localStorage s of
        None \<Rightarrow> (True, s)
      | Some old \<Rightarrow> (True, s\<lparr>localStorage := Some (Document (trendData s))\<rparr>))"

fun getNicheKeywords :: "string \<Rightarrow> string list" where
  "getNicheKeywords niche =
     (if niche = ''Survival & Emergency Preparedness'' then
        [''survival'', ''emergency'', ''preparedness'', ''prepping'', ''disaster'',
         ''food storage'', ''water filtration'', ''solar generator'', ''first aid'',
         ''emergency kit'', ''bug out bag'', ''survival gear'']
      else if niche = ''DIY & Home Improvement'' then
        [''diy'', ''home improvement'', ''tools'', ''homesteading'', ''woodworking'',
         ''gardening'', ''home repair'', ''power tools'', ''hand tools'', ''renovation'',
         ''home projects'', ''building'']
      else if niche = ''Personal Finance & Making Money Online'' then
        [''personal finance'', ''money'', ''investing'', ''budget'', ''passive income'',
         ''side hustle'', ''make money online'', ''financial freedom'', ''debt free'',
         ''retirement'', ''stocks'', ''real estate'', ''cryptocurrency'']
      else if niche = ''E-Learning & Skill-Building'' then
        [''e-learning'', ''online course'', ''skill building'', ''education'', ''training'',
         ''coding'', ''programming'', ''bootcamp'', ''certification'', ''tutorial'',
         ''learn online'', ''skills development'']
      else if niche = ''AI & Automation Tools'' then
        [''ai'', ''artificial intelligence'', ''automation'', ''machine learning'',
         ''chatbot'', ''ai writing'', ''ai tools'', ''automation software'', ''workflow'',
         ''productivity tools'', ''ai assistant'', ''data analysis'']
      else [])"

subsection \<open>extractKeywords\<close>

text \<open>
  \<open>text.replace(/[^\w\s]/g, ' ').split(/\s+/)\<close>: after the replacement every character is
  a word character or white space, and the pieces are the runs between white space (an
  empty piece at either end included).
\<close>

fun split_spaces :: "string \<Rightarrow> string \<Rightarrow> bool \<Rightarrow> string list" where
  "split_spaces [] cur in_gap = [cur]"
| "split_spaces (c # cs) cur in_gap =
     (if is_space_char c then
        (if in_gap then split_spaces cs cur True else cur # split_spaces cs [] True)
      else split_spaces cs (cur @ [c]) False)"

definition words_of :: "string \<Rightarrow> string list" where
  "words_of text =
     filter (\<lambda>word. length word > 3)
       (split_spaces
          (map (\<lambda>c. if is_word_char c \<or> is_space_char c then c else CHR '' '') (toLowerCase text))
          [] False)"

text \<open>
  The keys of \<open>wordCounts\<close> in the order \<open>Object.entries\<close> lists them: canonical array
  indices first, ascending, then the other keys by first insertion.
\<close>

definition digit_value :: "char \<Rightarrow> int" where
  "digit_value c = (of_char c :: int) - 48"

definition decimal_value :: "string \<Rightarrow> int" where
  "decimal_value w = foldl (\<lambda>n c. 10 * n + digit_value c) 0 w"

definition is_array_index :: "string \<Rightarrow> bool" where
  "is_array_index w =
     (w \<noteq> [] \<and> list_all (\<lambda>c. c \<in> set ''0123456789'') w
      \<and> (w = ''0'' \<or> hd w \<noteq> CHR ''0'') \<and> decimal_value w < 4294967295)"

definition first_occurrences :: "'a list \<Rightarrow> 'a list" where
  "first_occurrences xs = rev (remdups (rev xs))"

definition own_keys :: "string list \<Rightarrow> string list" where
  "own_keys ws =
     sort_key decimal_value (filter is_array_index (first_occurrences ws))
     @ filter (\<lambda>w. \<not> is_array_index w) (first_occurrences ws)"

text \<open>
  \<open>wordCounts[word] = (wordCounts[word] || 0) + 1\<close> on the object \<open>{}\<close>.  For a word that
  names a member of \<open>Object.prototype\<close> the first read finds that member: its sum with 1
  is a string, and so is the count from then on (\<open>None\<close>).  For the word \<open>__proto__\<close> the
  assignment of a string is ignored, and the word never becomes a key.
\<close>

definition word_count :: "string list \<Rightarrow> string \<Rightarrow> nat option" where
  "word_count words w = (if w \<in> set prototype_members then None else Some (count_list words w))"

text \<open>
  \<open>extractKeywords\<close>: the ten most frequent words, by
  \<open>Object.entries(wordCounts).sort((a, b) => b[1] - a[1])\<close>.  On numbers this is a stable
  sort on descending count.  With a count that is no number the difference is \<open>NaN\<close>, the
  comparison function is not consistent and the language leaves the order to the
  implementation: the model takes it from a parameter \<open>engine\<close>, the sort of the
  JavaScript engine.  The \<open>catch\<close> of \<open>extractKeywords\<close> returns \<open>[]\<close>.
\<close>

definition extractKeywords :: "engine \<Rightarrow> json \<Rightarrow> string list" where
  "extractKeywords engine results =
     (case JSON_stringify results of
        None \<Rightarrow> []
      | Some text \<Rightarrow>
          (let words = words_of text;
               wordCounts = map (\<lambda>w. (w, word_count words w))
                              (own_keys (filter (\<lambda>w. w \<noteq> ''__proto__'') words))
           in map fst
                (take 10
                   (if list_ex (\<lambda>e. snd e = None) wordCounts then engine wordCounts
                    else sort_key (\<lambda>e. case snd e of Some n \<Rightarrow> - int n | None \<Rightarrow> 0)
                           wordCounts))))"

subsection \<open>extractProducts\<close>

text \<open>
  \<open>String(v)\<close>, as a template literal, string concatenation and a computed property
  key apply it.
\<close>

fun js_toString :: "json \<Rightarrow> string"
  and js_toString_elements :: "json list \<Rightarrow> string list" where
  "js_toString JUndefined = ''undefined''"
| "js_toString JNull = ''null''"
| "js_toString (JBool b) = (if b then ''true'' else ''false'')"
| "js_toString (JNum n) = show_int n"
| "js_toString (JStr s) = s"
| "js_toString (JArr xs) = join '','' (js_toString_elements xs)"
| "js_toString (JObj fs) = ''[object Object]''"
| "js_toString_elements [] = []"
| "js_toString_elements (x # xs) =
     (if x = JUndefined \<or> x = JNull then [] else js_toString x) # js_toString_elements xs"

text \<open>The object literal that \<open>extractProducts\<close> builds from a result with a title or name.\<close>

definition product_of :: "json \<Rightarrow> 'a world_scheme \<Rightarrow> json \<times> 'a world_scheme" where
  "product_of result w =
     (let (pid, w1) =
            (if truthy (member_of result ''id'') then (member_of result ''id'', w)
             else (let (u, w') = fresh_uid w in (JStr (''product_'' @ u), w')));
          (t, w2) = now w1
      in (JObj
           [(''id'', pid),
            (''title'', js_or (js_or (member_of result ''title'') (member_of result ''name''))
                          (JStr ''Unknown Product'')),
            (''description'', js_or (member_of result ''description'') (JStr [])),
            (''price'', js_or (member_of result ''price'') (JNum 0)),
            (''url'', js_or (js_or (member_of result ''url'') (member_of result ''link'')) (JStr [])),
            (''image'', js_or (member_of result ''image'') (JStr [])),
            (''source'', js_or (member_of result ''source'') (JStr ''unknown'')),
            (''timestamp'', JStr t)],
          w2))"

text \<open>
  The loop of \<open>extractProducts\<close>; \<open>result.title\<close> throws when the result is \<open>null\<close>.
\<close>

fun extract_each :: "json list \<Rightarrow> 'a world_scheme \<Rightarrow> (error + json list) \<times> 'a world_scheme" where
  "extract_each [] w = (Inr [], w)"
| "extract_each (result # rest) w =
     (case getProp result ''title'' of
        Inl e \<Rightarrow> (Inl e, w)
      | Inr title \<Rightarrow>
          (if truthy (js_or title (member_of result ''name'')) then
             (let (p, w1) = product_of result w
              in case extract_each rest w1 of
                   (Inl e, w2) \<Rightarrow> (Inl e, w2)
                 | (Inr ps, w2) \<Rightarrow> (Inr (p # ps), w2))
           else extract_each rest w))"

text \<open>\<open>extractProducts\<close>; its \<open>catch\<close> returns \<open>[]\<close>.\<close>

definition extractProducts :: "json \<Rightarrow> 'a world_scheme \<Rightarrow> json list \<times> 'a world_scheme" where
  "extractProducts results w =
     (case results of
        JArr rs \<Rightarrow>
          (case extract_each rs w of
             (Inl e, w') \<Rightarrow> ([], w')
           | (Inr ps, w') \<Rightarrow> (ps, w'))
      | _ \<Rightarrow> ([], w))"

subsection \<open>analyzeByNiche\<close>

text \<open>\<open>xs.includes(x) || xs.push(x)\<close>.\<close>

definition push_new :: "'a \<Rightarrow> 'a list \<Rightarrow> 'a list" where
  "push_new x xs = (if x \<in> set xs then xs else xs @ [x])"

text \<open>
  \<open>a === b\<close> on values: by content on primitives; two objects or arrays are compared by
  identity, which this model does not track and takes as different.
\<close>

definition strict_equal :: "json \<Rightarrow> json \<Rightarrow> bool" where
  "strict_equal a b = (case a of JArr xs \<Rightarrow> False | JObj fs \<Rightarrow> False | _ \<Rightarrow> a = b)"

definition push_new_product :: "json \<Rightarrow> json list \<Rightarrow> json list" where
  "push_new_product p ps =
     (if list_ex (\<lambda>q. strict_equal (member_of q ''id'') (member_of p ''id'')) ps then ps
      else ps @ [p])"

text \<open>\<open>v.toLowerCase()\<close> for a value that is neither \<open>undefined\<close> nor \<open>null\<close>.\<close>

fun js_toLowerCase :: "json \<Rightarrow> error + string" where
  "js_toLowerCase (JStr s) = Inr (toLowerCase s)"
| "js_toLowerCase v = Inl (TypeError ''toLowerCase is not a function'')"

definition initNiche :: "string \<Rightarrow> 'tf trend_service \<Rightarrow> 'tf trend_service" where
  "initNiche niche s =
     (case map_of (trend_niches (trendData s)) niche of
        Some nd \<Rightarrow> s
      | None \<Rightarrow>
          (let (t, s1) = now s
           in trendData_update
                (trend_niches_update
                   (\<lambda>ns. ns @ [(niche, \<lparr>popularity = 0, growth = 0, niche_keywords = [],
                                          niche_products = [], niche_lastUpdated = t\<rparr>)]))
                s1))"

text \<open>
  \<open>matchesNiche\<close>, given the lower-cased query and the lower-cased serialised results.
\<close>

definition matchesNiche :: "string \<Rightarrow> string \<Rightarrow> string \<Rightarrow> bool" where
  "matchesNiche query text niche =
     list_ex (\<lambda>keyword. str_includes query (toLowerCase keyword)
                        \<or> str_includes text (toLowerCase keyword))
       (getNicheKeywords niche)"

text \<open>The body of \<open>if (matchesNiche)\<close>; the niche has its entry since \<open>initNiche\<close>.\<close>

definition countNicheMatch :: "json \<Rightarrow> string \<Rightarrow> 'tf trend_service \<Rightarrow> 'tf trend_service" where
  "countNicheMatch results niche s =
     (let extractedKeywords = extractKeywords (engine_sort s) results;
          (extractedProducts, s1) = extractProducts results s;
          (t, s2) = now s1
      in trendData_update
           (trend_niches_update
              (AList.map_entry niche
                 (\<lambda>nicheData. nicheData
                    \<lparr>popularity := popularity nicheData + 1,
                     niche_keywords := foldl (\<lambda>ks k. push_new k ks) (niche_keywords nicheData)
                                         extractedKeywords,
                     niche_products := foldl (\<lambda>ps p. push_new_product p ps)
                                         (niche_products nicheData) extractedProducts,
                     niche_lastUpdated := t\<rparr>)))
           s2)"

text \<open>
  The callback of \<open>data.forEach\<close> in \<open>analyzeByNiche\<close>.  \<open>query.toLowerCase()\<close> is first
  evaluated for the first keyword of the first niche, before anything is written, and
  throws when the query is not a string.
\<close>

definition niche_item :: "item \<Rightarrow> 'tf trend_service \<Rightarrow> error option \<times> 'tf trend_service" where
  "niche_item it s =
     (if \<not> truthy (data it) \<or> \<not> truthy (member_of (data it) ''results'') then (None, s)
      else
        (let results = member_of (data it) ''results'';
             query = js_or (member_of (data it) ''query'') (JStr [])
         in case js_toLowerCase query of
              Inl e \<Rightarrow> (Some e, s)
            | Inr q \<Rightarrow>
                (None,
                 foldl (\<lambda>s' niche.
                          if matchesNiche q (toLowerCase (serialize results)) niche
                          then countNicheMatch results niche s' else s')
                   s preferredNiches)))"

definition growth_of :: "int \<Rightarrow> rat \<Rightarrow> rat" where
  "growth_of pop r = toFixed2 (of_int pop * (r * (2 / 10) + 9 / 10) - of_int pop)"

definition calculateNicheGrowth :: "'tf trend_service \<Rightarrow> bool \<times> 'tf trend_service" where
  "calculateNicheGrowth s =
     (True,
      foldl (\<lambda>s' niche.
               (let (r, s1) = Math_random s'
                in trendData_update
                     (trend_niches_update
                        (AList.map_entry niche
                           (\<lambda>nicheData. nicheData\<lparr>growth := growth_of (popularity nicheData) r\<rparr>)))
                     s1))
        s (map fst (trend_niches (trendData s))))"

definition trend_analyzeByNiche ::
  "item list \<Rightarrow> 'tf trend_service \<Rightarrow> pass_result \<times> 'tf trend_service" where
  "trend_analyzeByNiche allData s =
     (case forEach niche_item allData (foldl (\<lambda>s' niche. initNiche niche s') s preferredNiches) of
        (Some e, s1) \<Rightarrow>
          (\<lparr>success = False,
            message = ''Failed to analyze data by niche: '' @ error_message e\<rparr>, s1)
      | (None, s1) \<Rightarrow>
          (\<lparr>success = True, message = ''Successfully analyzed data by niche''\<rparr>,
           snd (calculateNicheGrowth s1)))"

subsection \<open>analyzeByKeyword and analyzeByProduct\<close>

text \<open>
  What both loops do to an entry once it exists: count the mention, add the source and
  the related keywords that are new, overwrite the sentiment, stamp the time.

  Where the key names a member of \<open>Object.prototype\<close> that the store does not own, the
  test \<open>!store[key]\<close> finds that member, no entry is created, \<open>mentions += 1\<close> lands on the
  built-in object and \<open>sources.includes\<close> throws, which ends the pass.  The member
  \<open>mentions\<close> that this leaves on the built-in object is not part of the state: the
  services read \<open>mentions\<close> only from entries that own it.
\<close>

definition count_mention ::
  "string \<Rightarrow> string list \<Rightarrow> rat \<Rightarrow> string \<Rightarrow> 'a keyword_data_scheme \<Rightarrow> 'a keyword_data_scheme" where
  "count_mention src related score t entry =
     entry\<lparr>mentions := mentions entry + 1,
           sources := push_new src (sources entry),
           relatedKeywords := foldl (\<lambda>ks k. push_new k ks) (relatedKeywords entry) related,
           sentiment := score,
           lastUpdated := t\<rparr>"

definition update_entry :: "'k \<Rightarrow> ('v \<Rightarrow> 'v) \<Rightarrow> ('k \<rightharpoonup> 'v) \<Rightarrow> ('k \<rightharpoonup> 'v)" where
  "update_entry k f m = (case m k of None \<Rightarrow> m | Some v \<Rightarrow> m(k \<mapsto> f v))"

definition keyword_item :: "item \<Rightarrow> 'tf trend_service \<Rightarrow> error option \<times> 'tf trend_service" where
  "keyword_item it s =
     (if \<not> truthy (data it) \<or> \<not> truthy (member_of (data it) ''results'')
         \<or> \<not> truthy (member_of (data it) ''query'') then (None, s)
      else
        (case js_toLowerCase (member_of (data it) ''query'') of
           Inl e \<Rightarrow> (Some e, s)
         | Inr query \<Rightarrow>
             if inherited_key (trend_keywords (trendData s)) query then
               (Some (TypeError ''Cannot read properties of undefined (reading includes)''), s)
             else
             (let results = member_of (data it) ''results'';
                  s1 = (case trend_keywords (trendData s) query of
                          Some kd \<Rightarrow> s
                        | None \<Rightarrow>
                            (let (t0, s') = now s
                             in trendData_update
                                  (trend_keywords_update
                                     (\<lambda>m. m(query \<mapsto>
                                        \<lparr>mentions = 0, sentiment = 0, relatedKeywords = [],
                                         sources = [], lastUpdated = t0\<rparr>)))
                                  s'));
                  (t, s2) = now s1
              in (None,
                  trendData_update
                    (trend_keywords_update
                       (update_entry query
                          (count_mention (source it)
                             (filter (\<lambda>k. k \<noteq> query)
                                (extractKeywords (engine_sort s) results))
                             (calculateSentiment results) t)))
                    s2))))"

definition trend_analyzeByKeyword ::
  "item list \<Rightarrow> 'tf trend_service \<Rightarrow> pass_result \<times> 'tf trend_service" where
  "trend_analyzeByKeyword allData s =
     (case forEach keyword_item allData s of
        (Some e, s1) \<Rightarrow>
          (\<lparr>success = False,
            message = ''Failed to analyze data by keyword: '' @ error_message e\<rparr>, s1)
      | (None, s1) \<Rightarrow>
          (\<lparr>success = True, message = ''Successfully analyzed data by keyword''\<rparr>, s1))"

text \<open>
  The callback of \<open>products.forEach\<close> in \<open>analyzeByProduct\<close>.  The key is \<open>product.id\<close>
  converted to a string.
\<close>

definition product_step ::
  "item \<Rightarrow> json \<Rightarrow> json \<Rightarrow> 'tf trend_service \<Rightarrow> error option \<times> 'tf trend_service" where
  "product_step it results p s =
     (let productId = js_toString (member_of p ''id'')
      in if inherited_key (trend_products (trendData s)) productId then
           (Some (TypeError ''Cannot read properties of undefined (reading includes)''), s)
         else
           (let s1 = (case trend_products (trendData s) productId of
                        Some pd \<Rightarrow> s
                      | None \<Rightarrow>
                          (let (t0, s') = now s
                           in trendData_update
                                (trend_products_update
                                   (\<lambda>m. m(productId \<mapsto>
                                      \<lparr>mentions = 0, sentiment = 0, relatedKeywords = [],
                                       sources = [], lastUpdated = t0, product = p\<rparr>)))
                                s'));
                (t, s2) = now s1
            in (None,
                trendData_update
                  (trend_products_update
                     (update_entry productId
                        (count_mention (source it) (extractKeywords (engine_sort s) results)
                           (calculateSentiment results) t)))
                  s2)))"

text \<open>
  The callback of \<open>data.forEach\<close> in \<open>analyzeByProduct\<close>: an exception of the inner loop
  leaves the outer one as well.
\<close>

definition product_item :: "item \<Rightarrow> 'tf trend_service \<Rightarrow> error option \<times> 'tf trend_service" where
  "product_item it s =
     (if \<not> truthy (data it) \<or> \<not> truthy (member_of (data it) ''results'') then (None, s)
      else
        (let results = member_of (data it) ''results'';
             (ps, s1) = extractProducts results s
         in forEach (product_step it results) ps s1))"

definition analyzeByProduct ::
  "item list \<Rightarrow> 'tf trend_service \<Rightarrow> pass_result \<times> 'tf trend_service" where
  "analyzeByProduct allData s =
     (case forEach product_item allData s of
        (Some e, s1) \<Rightarrow>
          (\<lparr>success = False,
            message = ''Failed to analyze data by product: '' @ error_message e\<rparr>, s1)
      | (None, s1) \<Rightarrow>
          (\<lparr>success = True, message = ''Successfully analyzed data by product''\<rparr>, s1))"

subsection \<open>analyzeAllData\<close>

text \<open>
  The body of \<open>analyzeByTimeframe\<close> is not among the sources.  It is a parameter \<open>byTimeframe\<close>
  of the model: given the records it rewrites the \<open>timeframes\<close> member, and it either
  returns (\<open>None\<close>) or throws (\<open>Some e\<close>).
\<close>

type_synonym 'tf timeframe_pass = "item list \<Rightarrow> 'tf \<Rightarrow> error option \<times> 'tf"

record 'd analysis_result = pass_result +
  returned :: "'d option"

text \<open>
  \<open>analyzeAllData\<close> of the trend service; \<open>allData\<close> is what \<open>dataStorage.searchData()\<close>
  returns, and \<open>returned\<close> the member \<open>trends\<close> of the result (\<open>None\<close> for \<open>{}\<close>).
\<close>

definition trend_analyzeAllData ::
  "'tf timeframe_pass \<Rightarrow> item list \<Rightarrow> 'tf trend_service
    \<Rightarrow> 'tf trend_data analysis_result \<times> 'tf trend_service" where
  "trend_analyzeAllData byTimeframe allData s =
     (let s0 = (if \<not> initialized s then snd (trend_initialize s) else s)
      in if length allData = 0 then
           (\<lparr>success = False, message = ''No data available for analysis'', returned = None\<rparr>, s0)
         else
           (let s1 = snd (trend_analyzeByNiche allData s0);
                s2 = snd (trend_analyzeByKeyword allData s1);
                s3 = snd (analyzeByProduct allData s2)
            in case byTimeframe allData (trend_timeframes (trendData s3)) of
                 (Some e, tf) \<Rightarrow>
                   (\<lparr>success = False,
                     message = ''Failed to analyze all data for trends: '' @ error_message e,
                     returned = None\<rparr>,
                    trendData_update (trend_timeframes_update (\<lambda>_. tf)) s3)
               | (None, tf) \<Rightarrow>
                   (let s4 = snd (trend_saveToStorage
                                    (trendData_update (trend_timeframes_update (\<lambda>_. tf)) s3))
                    in (\<lparr>success = True,
                         message = ''Successfully analyzed all data for trends'',
                         returned = Some (trendData s4)\<rparr>, s4))))"

section \<open>Competitor analysis service\<close>

text \<open>
  \<open>competitorData\<close>.  \<open>competitors\<close> maps an id to a profile, a plain object, in insertion
  order (the order \<open>Object.values\<close> follows).  The members \<open>strategies\<close>, \<open>content\<close>,
  \<open>performance\<close> and \<open>niches\<close> belong to passes whose bodies are not among the sources; they
  are kept together in \<open>analyses\<close>.
\<close>

record 'x competitor_data =
  competitors :: "(string \<times> json) list"
  analyses :: 'x

text \<open>
  The object \<open>competitors\<close> stands in front of \<open>Object.prototype\<close>.  An assignment to its
  key \<open>__proto__\<close> puts the assigned object between the two: \<open>competitors_prototype\<close> holds
  the members of that object, and is \<open>None\<close> while there is none.  It belongs to the object
  in memory and is not persisted.
\<close>

record 'x competitor_service = "'x competitor_data service" +
  competitorData :: "'x competitor_data"
  competitors_prototype :: "(string \<times> json) list option"

definition CompetitorAnalysisService ::
  "(nat \<Rightarrow> string) \<Rightarrow> (nat \<Rightarrow> string) \<Rightarrow> (nat \<Rightarrow> rat) \<Rightarrow> 'x competitor_data stored option \<Rightarrow> 'x
    \<Rightarrow> 'x competitor_service" where
  "CompetitorAnalysisService c u r st x0 =
     \<lparr>clock = c, uid = u, random = r, tick = 0, initialized = False, localStorage = st,
      competitorData = \<lparr>competitors = [], analyses = x0\<rparr>,
      competitors_prototype = None\<rparr>"

text \<open>
  The code of the service that the sources do not show, as parameters of the model: two
  helpers of the extractors, the extractor for other sources (its text breaks off after
  a few lines) and the four later passes of \<open>analyzeAllData\<close>.  Each may throw.
\<close>

record 'x unseen =
  calculateEngagement :: "json \<Rightarrow> error + json"
  determineNiche :: "json \<Rightarrow> error + json"
  extractGenericCompetitors ::
    "json \<Rightarrow> string \<Rightarrow> 'x competitor_service \<Rightarrow> error option \<times> 'x competitor_service"
  analyzeCompetitorStrategies :: "'x competitor_service \<Rightarrow> error option \<times> 'x competitor_service"
  analyzeCompetitorContent :: "'x competitor_service \<Rightarrow> error option \<times> 'x competitor_service"
  analyzeCompetitorPerformance :: "'x competitor_service \<Rightarrow> error option \<times> 'x competitor_service"
  competitor_analyzeByNiche :: "'x competitor_service \<Rightarrow> error option \<times> 'x competitor_service"

definition competitor_initialize :: "'x competitor_service \<Rightarrow> bool \<times> 'x competitor_service" where
  "competitor_initialize s =
     (case localStorage s of
        None \<Rightarrow> (True, s\<lparr>initialized := True\<rparr>)
      | Some NoItem \<Rightarrow> (True, s\<lparr>initialized := True\<rparr>)
      | Some Unparsable \<Rightarrow> (False, s)
      | Some (Document d) \<Rightarrow>
          (True, s\<lparr>initialized := True, competitorData := d, competitors_prototype := None\<rparr>))"

definition competitor_saveToStorage :: "'x competitor_service \<Rightarrow> bool \<times> 'x competitor_service" where
  "competitor_saveToStorage s =
     (case localStorage s of
        None \<Rightarrow> (True, s)
      | Some old \<Rightarrow> (True, s\<lparr>localStorage := Some (Document (competitorData s))\<rparr>))"

text \<open>
  \<open>this.competitorData.competitors[id]\<close>; the key is the id converted to a string.  The
  read finds the member that \<open>competitors\<close> owns, else the member of the object put in front
  of \<open>Object.prototype\<close> (for \<open>__proto__\<close>: that object itself), else the member of
  \<open>Object.prototype\<close>, a built-in that is truthy and has no enumerable member of its own.
\<close>

datatype lookup = Found json | Builtin | Missing

definition stored_competitor :: "'x competitor_service \<Rightarrow> json \<Rightarrow> lookup" where
  "stored_competitor s cid =
     (let key = js_toString cid
      in case map_of (competitors (competitorData s)) key of
           Some c \<Rightarrow> Found c
         | None \<Rightarrow>
             (case competitors_prototype s of
                Some fs \<Rightarrow>
                  (case map_of fs key of
                     Some v \<Rightarrow> Found v
                   | None \<Rightarrow>
                       if key = ''__proto__'' then Found (JObj fs)
                       else if key \<in> set prototype_members then Builtin else Missing)
              | None \<Rightarrow> if key \<in> set prototype_members then Builtin else Missing))"

fun truthy_lookup :: "lookup \<Rightarrow> bool" where
  "truthy_lookup (Found v) = truthy v"
| "truthy_lookup Builtin = True"
| "truthy_lookup Missing = False"

text \<open>\<open>competitor.content\<close> on what a read has found, which is truthy.\<close>

fun content_of :: "lookup \<Rightarrow> json" where
  "content_of (Found v) = member_of v ''content''"
| "content_of Builtin = JUndefined"
| "content_of Missing = JUndefined"

text \<open>
  \<open>competitors[key] = {...}\<close> for an object literal with the given members.  For the key
  \<open>__proto__\<close>, unless \<open>competitors\<close> or the object in front of \<open>Object.prototype\<close> owns a
  member of that name, the assignment reaches the setter of \<open>Object.prototype\<close>, which
  makes the literal the prototype of \<open>competitors\<close> and adds no member.
\<close>

definition assign_competitor ::
  "string \<Rightarrow> (string \<times> json) list \<Rightarrow> 'x competitor_service \<Rightarrow> 'x competitor_service" where
  "assign_competitor key members s =
     (if key = ''__proto__'' \<and> map_of (competitors (competitorData s)) key = None
         \<and> (case competitors_prototype s of Some fs \<Rightarrow> map_of fs key = None | None \<Rightarrow> True)
      then s\<lparr>competitors_prototype := Some members\<rparr>
      else competitorData_update (competitors_update (AList.update key (JObj members))) s)"

subsection \<open>addCompetitor, updateCompetitor, removeCompetitor\<close>

text \<open>
  \<open>addCompetitor\<close>.  The stored object has exactly the members of the literal in the
  source; a \<open>platformId\<close> of the argument is not among them.  The \<open>catch\<close> returns \<open>null\<close>.
\<close>

definition addCompetitor :: "json \<Rightarrow> 'x competitor_service \<Rightarrow> json \<times> 'x competitor_service" where
  "addCompetitor competitor s =
     (case getProp competitor ''id'' of
        Inl e \<Rightarrow> (JNull, s)
      | Inr given \<Rightarrow>
          (let (cid, s1) =
                 (if truthy given then (given, s)
                  else (let (u, s') = fresh_uid s in (JStr (''competitor_'' @ u), s')));
               (added, s2) = now s1;
               (updated, s3) = now s2;
               profile =
                 [(''id'', cid),
                  (''name'', member_of competitor ''name''),
                  (''url'', member_of competitor ''url''),
                  (''platform'', member_of competitor ''platform''),
                  (''niche'', member_of competitor ''niche''),
                  (''description'', member_of competitor ''description''),
                  (''added'', JStr added),
                  (''lastUpdated'', JStr updated),
                  (''metrics'', js_or (member_of competitor ''metrics'') (JObj [])),
                  (''content'', JArr []),
                  (''strategies'', JArr [])]
           in (cid, snd (competitor_saveToStorage (assign_competitor (js_toString cid) profile s3)))))"

text \<open>
  \<open>{...v}\<close>: the members of an object; the elements of an array and the characters of a
  string under their indices; nothing for any other value, and nothing for a built-in.
  \<open>{...a, ...b}\<close> on the members of two objects.
\<close>

definition object_members :: "json \<Rightarrow> (string \<times> json) list" where
  "object_members v = (case v of JObj fs \<Rightarrow> fs | _ \<Rightarrow> [])"

definition enumerable_members :: "json \<Rightarrow> (string \<times> json) list" where
  "enumerable_members v =
     (case v of
        JObj fs \<Rightarrow> fs
      | JArr xs \<Rightarrow> zip (map (\<lambda>i. show_int (int i)) [0..<length xs]) xs
      | JStr cs \<Rightarrow> zip (map (\<lambda>i. show_int (int i)) [0..<length cs]) (map (\<lambda>c. JStr [c]) cs)
      | _ \<Rightarrow> [])"

fun spread_lookup :: "lookup \<Rightarrow> (string \<times> json) list" where
  "spread_lookup (Found v) = enumerable_members v"
| "spread_lookup Builtin = []"
| "spread_lookup Missing = []"

definition spread :: "(string \<times> json) list \<Rightarrow> (string \<times> json) list \<Rightarrow> (string \<times> json) list" where
  "spread a b = foldl (\<lambda>acc kv. AList.update (fst kv) (snd kv) acc) a b"

text \<open>
  The \<open>try\<close> block of \<open>updateCompetitor\<close>: it throws when the read under the id finds
  nothing truthy.
\<close>

definition updateCompetitor_try ::
  "json \<Rightarrow> (string \<times> json) list \<Rightarrow> 'x competitor_service \<Rightarrow> (error + bool) \<times> 'x competitor_service" where
  "updateCompetitor_try cid updates s =
     (if \<not> truthy_lookup (stored_competitor s cid) then
        (Inl (Error (''Competitor with ID '' @ js_toString cid @ '' not found'')), s)
      else
        (let (t, s1) = now s;
             profile = spread (spread (spread_lookup (stored_competitor s cid)) updates)
                         [(''lastUpdated'', JStr t)]
         in (Inr True,
             snd (competitor_saveToStorage (assign_competitor (js_toString cid) profile s1)))))"

text \<open>
  \<open>updateCompetitor\<close> as its caller sees it: \<open>Inr b\<close> when it returns \<open>b\<close>, \<open>Inl e\<close> when it
  throws \<open>e\<close>.  The \<open>catch\<close> of the function itself returns \<open>false\<close>.
\<close>

definition updateCompetitor ::
  "json \<Rightarrow> (string \<times> json) list \<Rightarrow> 'x competitor_service \<Rightarrow> (error + bool) \<times> 'x competitor_service" where
  "updateCompetitor cid updates s =
     (case updateCompetitor_try cid updates s of
        (Inl e, s') \<Rightarrow> (Inr False, s')
      | (Inr b, s') \<Rightarrow> (Inr b, s'))"

text \<open>\<open>delete competitors[id]\<close> removes a member that \<open>competitors\<close> owns, and nothing else.\<close>

definition removeCompetitor_try ::
  "json \<Rightarrow> 'x competitor_service \<Rightarrow> (error + bool) \<times> 'x competitor_service" where
  "removeCompetitor_try cid s =
     (if \<not> truthy_lookup (stored_competitor s cid) then
        (Inl (Error (''Competitor with ID '' @ js_toString cid @ '' not found'')), s)
      else
        (Inr True,
         snd (competitor_saveToStorage
                (competitorData_update
                   (competitors_update (AList.delete (js_toString cid))) s))))"

definition removeCompetitor ::
  "json \<Rightarrow> 'x competitor_service \<Rightarrow> (error + bool) \<times> 'x competitor_service" where
  "removeCompetitor cid s =
     (case removeCompetitor_try cid s of
        (Inl e, s') \<Rightarrow> (Inr False, s')
      | (Inr b, s') \<Rightarrow> (Inr b, s'))"

text \<open>\<open>getCompetitor\<close>: \<open>competitors[id] || null\<close>.\<close>

definition getCompetitor :: "'x competitor_service \<Rightarrow> json \<Rightarrow> lookup" where
  "getCompetitor s cid =
     (if truthy_lookup (stored_competitor s cid) then stored_competitor s cid else Found JNull)"

definition getAllCompetitors :: "'x competitor_service \<Rightarrow> json list" where
  "getAllCompetitors s = map snd (competitors (competitorData s))"

subsection \<open>The extractors\<close>

text \<open>
  \<open>v < k\<close> for a number \<open>k\<close>: \<open>v\<close> is converted to a number and the comparison is false for
  \<open>NaN\<close> (\<open>None\<close>).  Of the strings, the model converts the empty string and the signed
  decimal integers; any other text counts as \<open>NaN\<close>.
\<close>

definition all_digits :: "string \<Rightarrow> bool" where
  "all_digits w = (w \<noteq> [] \<and> list_all (\<lambda>c. c \<in> set ''0123456789'') w)"

definition string_number :: "string \<Rightarrow> int option" where
  "string_number w =
     (let t = rev (dropWhile is_space_char (rev (dropWhile is_space_char w)))
      in if t = [] then Some 0
         else if all_digits t then Some (decimal_value t)
         else if hd t = CHR ''-'' \<and> all_digits (tl t) then Some (- decimal_value (tl t))
         else if hd t = CHR ''+'' \<and> all_digits (tl t) then Some (decimal_value (tl t))
         else None)"

fun js_toNumber :: "json \<Rightarrow> int option" where
  "js_toNumber JUndefined = None"
| "js_toNumber JNull = Some 0"
| "js_toNumber (JBool b) = Some (if b then 1 else 0)"
| "js_toNumber (JNum n) = Some n"
| "js_toNumber v = string_number (js_toString v)"

definition js_less :: "json \<Rightarrow> int \<Rightarrow> bool" where
  "js_less v k = (case js_toNumber v of None \<Rightarrow> False | Some n \<Rightarrow> n < k)"

text \<open>\<open>xs.find(p)\<close> and \<open>xs.some(p)\<close> with a predicate that may throw.\<close>

fun js_find :: "(json \<Rightarrow> error + bool) \<Rightarrow> json list \<Rightarrow> error + json" where
  "js_find p [] = Inr JUndefined"
| "js_find p (x # xs) =
     (case p x of
        Inl e \<Rightarrow> Inl e
      | Inr found \<Rightarrow> if found then Inr x else js_find p xs)"

fun js_some :: "(json \<Rightarrow> error + bool) \<Rightarrow> json list \<Rightarrow> error + bool" where
  "js_some p [] = Inr False"
| "js_some p (x # xs) =
     (case p x of
        Inl e \<Rightarrow> Inl e
      | Inr found \<Rightarrow> if found then Inr True else js_some p xs)"

text \<open>
  The search for a tracked competitor:
  \<open>competitor.platform === platform && competitor[key] === wanted\<close>.
\<close>

definition same_competitor :: "string \<Rightarrow> string \<Rightarrow> json \<Rightarrow> json \<Rightarrow> error + bool" where
  "same_competitor platform key wanted competitor =
     (case getProp competitor ''platform'' of
        Inl e \<Rightarrow> Inl e
      | Inr p \<Rightarrow>
          Inr (strict_equal p (JStr platform) \<and> strict_equal (member_of competitor key) wanted))"

definition existingCompetitor ::
  "string \<Rightarrow> string \<Rightarrow> json \<Rightarrow> 'x competitor_service \<Rightarrow> error + json" where
  "existingCompetitor platform key wanted s =
     js_find (same_competitor platform key wanted) (getAllCompetitors s)"

text \<open>
  \<open>competitor.content.some(c => c[key] === wanted)\<close> on what \<open>getCompetitor\<close> has
  returned: it throws when \<open>content\<close> is not an array or holds \<open>null\<close>.
\<close>

definition has_content :: "string \<Rightarrow> json \<Rightarrow> lookup \<Rightarrow> error + bool" where
  "has_content key wanted competitor =
     (case content_of competitor of
        JArr cs \<Rightarrow>
          js_some (\<lambda>c. case getProp c key of
                          Inl e \<Rightarrow> Inl e
                        | Inr v \<Rightarrow> Inr (strict_equal v wanted)) cs
      | JUndefined \<Rightarrow> Inl (TypeError ''Cannot read properties of undefined (reading some)'')
      | JNull \<Rightarrow> Inl (TypeError ''Cannot read properties of null (reading some)'')
      | _ \<Rightarrow> Inl (TypeError ''competitor.content.some is not a function''))"

text \<open>
  \<open>competitor.content.push({..., discovered: new Date().toISOString()});
  this.updateCompetitor(id, {content: competitor.content})\<close> where \<open>competitor\<close> is what
  \<open>getCompetitor(id)\<close> has returned, which is truthy; \<open>entry\<close> builds the pushed object from
  the time.  The push changes the object in place, where \<open>competitors\<close> or the object in
  front of \<open>Object.prototype\<close> holds it; the update then writes a new object under the id.
  It throws when \<open>content\<close> is not an array: before the clock is read when there is no
  \<open>content\<close>, after it when \<open>content\<close> has no \<open>push\<close>.  (The new object shares its \<open>content\<close>
  array with the old one; the model keeps arrays as values and does not follow the
  sharing.)
\<close>

definition push_content ::
  "json \<Rightarrow> (string \<Rightarrow> json) \<Rightarrow> 'x competitor_service \<Rightarrow> error option \<times> 'x competitor_service" where
  "push_content cid entry s =
     (case content_of (stored_competitor s cid) of
        JArr cs \<Rightarrow>
          (let (t, s1) = now s;
               key = js_toString cid;
               push = (\<lambda>c. JObj (AList.update ''content'' (JArr (cs @ [entry t])) (object_members c)));
               pushed =
                 (if map_of (competitors (competitorData s1)) key \<noteq> None
                  then competitorData_update (competitors_update (AList.map_entry key push)) s1
                  else competitors_prototype_update (map_option (AList.map_entry key push)) s1)
           in (None, snd (updateCompetitor cid [(''content'', JArr (cs @ [entry t]))] pushed)))
      | JUndefined \<Rightarrow>
          (Some (TypeError ''Cannot read properties of undefined (reading push)''), s)
      | JNull \<Rightarrow> (Some (TypeError ''Cannot read properties of null (reading push)''), s)
      | _ \<Rightarrow> (Some (TypeError ''competitor.content.push is not a function''), snd (now s)))"

text \<open>The callback of \<open>results.forEach\<close> in \<open>extractTwitterCompetitors\<close>.\<close>

definition twitter_tweet ::
  "'x unseen \<Rightarrow> json \<Rightarrow> 'x competitor_service \<Rightarrow> error option \<times> 'x competitor_service" where
  "twitter_tweet un tweet s =
     (case getProp tweet ''user'' of
        Inl e \<Rightarrow> (Some e, s)
      | Inr user \<Rightarrow>
          if \<not> truthy user then (None, s)
          else if js_less (member_of user ''followers_count'') 1000 then (None, s)
          else
            (case existingCompetitor ''twitter'' ''platformId'' (member_of user ''id'') s of
               Inl e \<Rightarrow> (Some e, s)
             | Inr existing \<Rightarrow>
                 if truthy existing then
                   (case calculateEngagement un tweet of
                      Inl e \<Rightarrow> (Some e, s)
                    | Inr engagement \<Rightarrow>
                        (None,
                         snd (updateCompetitor (member_of existing ''id'')
                                [(''metrics'',
                                  JObj [(''followers'', member_of user ''followers_count''),
                                        (''tweets'', member_of user ''statuses_count''),
                                        (''engagement'', engagement)])]
                                s)))
                 else
                   (case determineNiche un (member_of tweet ''text'') of
                      Inl e \<Rightarrow> (Some e, s)
                    | Inr niche \<Rightarrow>
                        (case calculateEngagement un tweet of
                           Inl e \<Rightarrow> (Some e, s)
                         | Inr engagement \<Rightarrow>
                             (None,
                              snd (addCompetitor
                                     (JObj
                                        [(''name'', member_of user ''name''),
                                         (''url'', JStr (''https://twitter.com/''
                                                          @ js_toString (member_of user ''screen_name''))),
                                         (''platform'', JStr ''twitter''),
                                         (''platformId'', member_of user ''id''),
                                         (''niche'', niche),
                                         (''description'',
                                            js_or (member_of user ''description'') (JStr [])),
                                         (''metrics'',
                                            JObj [(''followers'', member_of user ''followers_count''),
                                                  (''tweets'', member_of user ''statuses_count''),
                                                  (''engagement'', engagement)])])
                                     s))))))"

text \<open>
  An extractor returns \<open>undefined\<close> for results that are no array, \<open>true\<close> after the loop,
  and \<open>false\<close> from its \<open>catch\<close>.
\<close>

definition extractor ::
  "(json \<Rightarrow> 'x competitor_service \<Rightarrow> error option \<times> 'x competitor_service)
    \<Rightarrow> json \<Rightarrow> 'x competitor_service \<Rightarrow> json \<times> 'x competitor_service" where
  "extractor callback results s =
     (case results of
        JArr rs \<Rightarrow>
          (case forEach callback rs s of
             (Some e, s') \<Rightarrow> (JBool False, s')
           | (None, s') \<Rightarrow> (JBool True, s'))
      | _ \<Rightarrow> (JUndefined, s))"

definition extractTwitterCompetitors ::
  "'x unseen \<Rightarrow> json \<Rightarrow> 'x competitor_service \<Rightarrow> json \<times> 'x competitor_service" where
  "extractTwitterCompetitors un results s = extractor (twitter_tweet un) results s"

text \<open>
  After \<open>addCompetitor\<close> has returned the id of a new profile: \<open>content.push(entry)\<close> and
  \<open>updateCompetitor\<close>, when the id and what \<open>getCompetitor\<close> returns for it are truthy.
\<close>

definition add_content ::
  "json \<Rightarrow> (string \<Rightarrow> json) \<Rightarrow> 'x competitor_service \<Rightarrow> error option \<times> 'x competitor_service" where
  "add_content cid entry s =
     (if truthy cid \<and> truthy_lookup (getCompetitor s cid) then push_content cid entry s
      else (None, s))"

text \<open>The callback of \<open>results.forEach\<close> in \<open>extractPinterestCompetitors\<close>.\<close>

definition pin_entry :: "json \<Rightarrow> string \<Rightarrow> json" where
  "pin_entry pin t =
     JObj [(''type'', JStr ''pin''),
           (''title'', member_of pin ''title''),
           (''description'', member_of pin ''description''),
           (''url'', member_of pin ''link''),
           (''image'', member_of pin ''image''),
           (''metrics'', member_of pin ''metrics''),
           (''discovered'', JStr t)]"

definition pinterest_pin ::
  "'x unseen \<Rightarrow> json \<Rightarrow> 'x competitor_service \<Rightarrow> error option \<times> 'x competitor_service" where
  "pinterest_pin un pin s =
     (case getProp pin ''metrics'' of
        Inl e \<Rightarrow> (Some e, s)
      | Inr metrics \<Rightarrow>
          if \<not> truthy metrics \<or> \<not> truthy (member_of metrics ''saves'')
             \<or> js_less (member_of metrics ''saves'') 100 then (None, s)
          else
            (let creatorName = js_or (member_of pin ''creator'') (JStr ''Unknown Creator'')
             in case existingCompetitor ''pinterest'' ''name'' creatorName s of
                  Inl e \<Rightarrow> (Some e, s)
                | Inr existing \<Rightarrow>
                    if truthy existing then
                      (let competitor = getCompetitor s (member_of existing ''id'')
                       in if \<not> truthy_lookup competitor then (None, s)
                          else
                            (case has_content ''url'' (member_of pin ''link'') competitor of
                               Inl e \<Rightarrow> (Some e, s)
                             | Inr present \<Rightarrow>
                                 if present then (None, s)
                                 else push_content (member_of existing ''id'') (pin_entry pin) s))
                    else
                      (case determineNiche un
                              (JStr (js_toString (member_of pin ''title'') @ '' ''
                                     @ js_toString (member_of pin ''description''))) of
                         Inl e \<Rightarrow> (Some e, s)
                       | Inr niche \<Rightarrow>
                           (let (cid, s1) =
                                  addCompetitor
                                    (JObj
                                       [(''name'', creatorName),
                                        (''url'', member_of pin ''link''),
                                        (''platform'', JStr ''pinterest''),
                                        (''niche'', niche),
                                        (''description'', JStr []),
                                        (''metrics'',
                                           JObj [(''pins'', JNum 1),
                                                 (''saves'', member_of metrics ''saves''),
                                                 (''comments'',
                                                    js_or (member_of metrics ''comments'') (JNum 0))])])
                                    s
                            in add_content cid (pin_entry pin) s1))))"

definition extractPinterestCompetitors ::
  "'x unseen \<Rightarrow> json \<Rightarrow> 'x competitor_service \<Rightarrow> json \<times> 'x competitor_service" where
  "extractPinterestCompetitors un results s = extractor (pinterest_pin un) results s"

text \<open>The callback of \<open>results.forEach\<close> in \<open>extractTikTokCompetitors\<close>.\<close>

definition video_entry :: "json \<Rightarrow> string \<Rightarrow> json" where
  "video_entry video t =
     JObj [(''type'', JStr ''video''),
           (''id'', member_of video ''id''),
           (''description'', member_of video ''description''),
           (''metrics'', member_of video ''metrics''),
           (''discovered'', JStr t)]"

definition tiktok_metrics :: "json \<Rightarrow> json \<Rightarrow> json" where
  "tiktok_metrics author engagement =
     JObj [(''followers'', member_of author ''followers''),
           (''videos'', JNum 1),
           (''engagement'', engagement)]"

definition tiktok_video ::
  "'x unseen \<Rightarrow> json \<Rightarrow> 'x competitor_service \<Rightarrow> error option \<times> 'x competitor_service" where
  "tiktok_video un video s =
     (case getProp video ''author'' of
        Inl e \<Rightarrow> (Some e, s)
      | Inr author \<Rightarrow>
          if \<not> truthy author then (None, s)
          else if js_less (member_of author ''followers'') 5000 then (None, s)
          else
            (case existingCompetitor ''tiktok'' ''platformId'' (member_of author ''id'') s of
               Inl e \<Rightarrow> (Some e, s)
             | Inr existing \<Rightarrow>
                 if truthy existing then
                   (case calculateEngagement un video of
                      Inl e \<Rightarrow> (Some e, s)
                    | Inr engagement \<Rightarrow>
                        (let s1 = snd (updateCompetitor (member_of existing ''id'')
                                         [(''metrics'', tiktok_metrics author engagement)] s);
                             competitor = getCompetitor s1 (member_of existing ''id'')
                         in if \<not> truthy_lookup competitor then (None, s1)
                            else
                              (case has_content ''id'' (member_of video ''id'') competitor of
                                 Inl e \<Rightarrow> (Some e, s1)
                               | Inr present \<Rightarrow>
                                   if present then (None, s1)
                                   else push_content (member_of existing ''id'')
                                          (video_entry video) s1)))
                 else
                   (case determineNiche un (member_of video ''description'') of
                      Inl e \<Rightarrow> (Some e, s)
                    | Inr niche \<Rightarrow>
                        (case calculateEngagement un video of
                           Inl e \<Rightarrow> (Some e, s)
                         | Inr engagement \<Rightarrow>
                             (let (cid, s1) =
                                    addCompetitor
                                      (JObj
                                         [(''name'', member_of author ''username''),
                                          (''url'', JStr (''https://tiktok.com/@''
                                                           @ js_toString (member_of author ''username''))),
                                          (''platform'', JStr ''tiktok''),
                                          (''platformId'', member_of author ''id''),
                                          (''niche'', niche),
                                          (''description'', JStr []),
                                          (''metrics'', tiktok_metrics author engagement)])
                                      s
                              in add_content cid (video_entry video) s1)))))"

definition extractTikTokCompetitors ::
  "'x unseen \<Rightarrow> json \<Rightarrow> 'x competitor_service \<Rightarrow> json \<times> 'x competitor_service" where
  "extractTikTokCompetitors un results s = extractor (tiktok_video un) results s"

subsection \<open>identifyCompetitors and analyzeAllData\<close>

text \<open>The callback of \<open>socialMediaData.forEach\<close>; what an extractor returns is dropped.\<close>

definition identify_item ::
  "'x unseen \<Rightarrow> item \<Rightarrow> 'x competitor_service \<Rightarrow> error option \<times> 'x competitor_service" where
  "identify_item un it s =
     (if \<not> truthy (data it) \<or> \<not> truthy (member_of (data it) ''results'') then (None, s)
      else
        (let results = member_of (data it) ''results''
         in if source it = ''twitter'' then (None, snd (extractTwitterCompetitors un results s))
            else if source it = ''pinterest'' then (None, snd (extractPinterestCompetitors un results s))
            else if source it = ''tiktok'' then (None, snd (extractTikTokCompetitors un results s))
            else extractGenericCompetitors un results (source it) s))"

definition identifyCompetitors ::
  "'x unseen \<Rightarrow> item list \<Rightarrow> 'x competitor_service \<Rightarrow> bool \<times> 'x competitor_service" where
  "identifyCompetitors un allData s =
     (case forEach (identify_item un)
             (filter (\<lambda>it. category it = ''socialMedia''
                           \<or> source it \<in> set [''twitter'', ''pinterest'', ''tiktok''])
                allData) s of
        (Some e, s') \<Rightarrow> (False, s')
      | (None, s') \<Rightarrow> (True, s'))"

text \<open>
  \<open>analyzeAllData\<close> of the competitor service; \<open>returned\<close> is the member \<open>competitors\<close> of
  the result.
\<close>

definition competitor_analyzeAllData ::
  "'x unseen \<Rightarrow> item list \<Rightarrow> 'x competitor_service
    \<Rightarrow> 'x competitor_data analysis_result \<times> 'x competitor_service" where
  "competitor_analyzeAllData un allData s =
     (let s0 = (if \<not> initialized s then snd (competitor_initialize s) else s)
      in if length allData = 0 then
           (\<lparr>success = False, message = ''No data available for analysis'', returned = None\<rparr>, s0)
         else
           (case forEach (\<lambda>pass. pass)
                   [analyzeCompetitorStrategies un, analyzeCompetitorContent un,
                    analyzeCompetitorPerformance un, competitor_analyzeByNiche un]
                   (snd (identifyCompetitors un allData s0)) of
              (Some e, s1) \<Rightarrow>
                (\<lparr>success = False,
                  message = ''Failed to analyze all data for competitor insights: ''
                            @ error_message e,
                  returned = None\<rparr>, s1)
            | (None, s1) \<Rightarrow>
                (let s2 = snd (competitor_saveToStorage s1)
                 in (\<lparr>success = True,
                      message = ''Successfully analyzed all data for competitor insights'',
                      returned = Some (competitorData s2)\<rparr>, s2))))"

text \<open>
  Modelled from the spec: the substring keyword matching of the by-niche pass, applied
  to a text alone (a keyword of the niche occurs in the text, whatever the case).
\<close>

definition text_matches_niche :: "string \<Rightarrow> string \<Rightarrow> bool" where
  "text_matches_niche text niche =
     list_ex (\<lambda>keyword. str_includes (toLowerCase text) (toLowerCase keyword))
       (getNicheKeywords niche)"

text \<open>
  Modelled from the spec: \<open>determineNiche\<close>, whose body is not among the sources.  The
  specification says that the niche of a new competitor "is decided by the same
  substring keyword-matching used in" the by-niche pass, "applied to the competitor's
  descriptive text; unmatched text yields an unclassified bucket".  Where the keywords of
  several niches occur, the model takes the first configured niche; the specification
  does not say which one wins.
\<close>

definition determineNiche_spec :: "json \<Rightarrow> error + json" where
  "determineNiche_spec text =
     (case filter (text_matches_niche (js_toString text)) preferredNiches of
        [] \<Rightarrow> Inr (JStr ''unclassified'')
      | niche # others \<Rightarrow> Inr (JStr niche))"



section \<open>Marketing strategy service: the budget facet\<close>

text \<open>
  \<open>generateBudgetStrategy\<close>.  The prioritised niches (a list of \<open>{niche, priority}\<close>) come
  from \<open>prioritizeNiches\<close> on the two other services' accessors, and the three remaining
  members of the strategy from further helpers; none of these bodies is among the
  sources, so their results (or the exception they throw) are parameters.

  An amount is \<open>None\<close> where the source computes no finite number, that is where the
  priorities sum to zero and the division is by zero.  \<open>budgetAllocation\<close> is a plain
  object: the assignment of an amount under the key \<open>__proto__\<close> reaches the setter of
  \<open>Object.prototype\<close>, which ignores a number, and adds no member.
\<close>

definition share :: "rat \<Rightarrow> rat \<Rightarrow> rat \<Rightarrow> rat option" where
  "share totalPriority initialBudget priority =
     (if totalPriority = 0 then None
      else Some (round_cents ((priority / totalPriority) * initialBudget)))"

definition budgetAllocation :: "(string \<times> rat) list \<Rightarrow> rat \<Rightarrow> (string \<times> rat option) list" where
  "budgetAllocation prioritizedNiches initialBudget =
     (let totalPriority = foldl (\<lambda>sum n. sum + snd n) 0 prioritizedNiches
      in foldl (\<lambda>allocation n.
                  if fst n = ''__proto__'' then allocation
                  else AList.update (fst n) (share totalPriority initialBudget (snd n)) allocation)
           [] prioritizedNiches)"

record 'r budget_strategy =
  initialBudget :: rat
  allocation :: "(string \<times> rat option) list"
  further :: 'r

definition generateBudgetStrategy ::
  "(error + (string \<times> rat) list) \<Rightarrow> rat \<Rightarrow> (error + 'r) \<Rightarrow> 'r budget_strategy list
    \<Rightarrow> bool \<times> 'r budget_strategy list" where
  "generateBudgetStrategy prioritized budget helpers strategies =
     (case prioritized of
        Inl e \<Rightarrow> (False, strategies)
      | Inr prioritizedNiches \<Rightarrow>
          (case helpers of
             Inl e \<Rightarrow> (False, strategies)
           | Inr r \<Rightarrow>
               (True,
                strategies @ [\<lparr>initialBudget = budget,
                                allocation = budgetAllocation prioritizedNiches budget,
                                further = r\<rparr>])))"

text \<open>The sum of the allocated amounts, \<open>None\<close> when one of them is no finite number.\<close>

definition allocation_sum :: "(string \<times> rat option) list \<Rightarrow> rat option" where
  "allocation_sum alloc =
     foldl (\<lambda>acc kv. case acc of
                        None \<Rightarrow> None
                      | Some a \<Rightarrow> (case snd kv of None \<Rightarrow> None | Some b \<Rightarrow> Some (a + b)))
       (Some 0) alloc"


section \<open>The records a pass counts\<close>

text \<open>
  The payloads that the by-keyword pass processes for the keyword \<open>q\<close>, in iteration
  order: those of the records with results whose lower-cased query is \<open>q\<close>, up to the
  first record on which the pass throws (its query is no string, or it names a member of
  \<open>Object.prototype\<close> that the store does not own).  The pass creates no entry under such a
  name, so that the store \<open>s\<close> in which the pass starts decides for all its records.
\<close>

fun keyword_hits :: "item list \<Rightarrow> 'tf trend_service \<Rightarrow> string \<Rightarrow> json list" where
  "keyword_hits [] s q = []"
| "keyword_hits (it # rest) s q =
     (if \<not> truthy (data it) \<or> \<not> truthy (member_of (data it) ''results'')
         \<or> \<not> truthy (member_of (data it) ''query'') then keyword_hits rest s q
      else
        (case js_toLowerCase (member_of (data it) ''query'') of
           Inl e \<Rightarrow> []
         | Inr query \<Rightarrow>
             if inherited_key (trend_keywords (trendData s)) query then []
             else (if query = q then [member_of (data it) ''results''] else [])
                  @ keyword_hits rest s q))"

text \<open>
  The products of a record that the by-product pass processes: those before the first
  one whose key names a member of \<open>Object.prototype\<close> that the store does not own.
\<close>

definition processed_products :: "json list \<Rightarrow> 'tf trend_service \<Rightarrow> json list" where
  "processed_products ps s =
     takeWhile (\<lambda>p. \<not> inherited_key (trend_products (trendData s)) (js_toString (member_of p ''id'')))
       ps"

text \<open>
  The payloads that the by-product pass processes for the product key \<open>k\<close>: the payload
  of a record once for every processed product with that key, up to the record on which
  the pass throws.  The extraction reads the environment, so the service is threaded
  through.
\<close>

fun product_hits :: "item list \<Rightarrow> 'tf trend_service \<Rightarrow> string \<Rightarrow> json list" where
  "product_hits [] s k = []"
| "product_hits (it # rest) s k =
     (if \<not> truthy (data it) \<or> \<not> truthy (member_of (data it) ''results'')
      then product_hits rest s k
      else
        replicate
          (length (filter (\<lambda>p. js_toString (member_of p ''id'') = k)
                     (processed_products (fst (extractProducts (member_of (data it) ''results'') s)) s)))
          (member_of (data it) ''results'')
        @ (if processed_products (fst (extractProducts (member_of (data it) ''results'') s)) s
              = fst (extractProducts (member_of (data it) ''results'') s)
           then product_hits rest (snd (product_item it s)) k
           else []))"

text \<open>
  The number of records that the by-niche pass counts for a niche: the records with
  results that match one of its keywords, up to the first record on which the pass
  throws.
\<close>

fun niche_count :: "item list \<Rightarrow> string \<Rightarrow> nat" where
  "niche_count [] niche = 0"
| "niche_count (it # rest) niche =
     (if \<not> truthy (data it) \<or> \<not> truthy (member_of (data it) ''results'')
      then niche_count rest niche
      else
        (case js_toLowerCase (js_or (member_of (data it) ''query'') (JStr [])) of
           Inl e \<Rightarrow> 0
         | Inr q \<Rightarrow>
             (if niche \<in> set preferredNiches
                 \<and> matchesNiche q (toLowerCase (serialize (member_of (data it) ''results''))) niche
              then 1 else 0)
             + niche_count rest niche))"

text \<open>Reading a counter or a score of an entry that may be missing.\<close>

definition popularity_of :: "'tf trend_service \<Rightarrow> string \<Rightarrow> int option" where
  "popularity_of s niche = map_option popularity (map_of (trend_niches (trendData s)) niche)"

definition keyword_entry :: "'tf trend_service \<Rightarrow> string \<Rightarrow> keyword_data option" where
  "keyword_entry s q = trend_keywords (trendData s) q"

definition product_entry :: "'tf trend_service \<Rightarrow> string \<Rightarrow> product_data option" where
  "product_entry s k = trend_products (trendData s) k"

text \<open>Successive \<open>analyzeAllData\<close> calls of the trend service, one per snapshot.\<close>

fun trend_passes ::
  "'tf timeframe_pass \<Rightarrow> item list list \<Rightarrow> 'tf trend_service \<Rightarrow> 'tf trend_service" where
  "trend_passes byTimeframe [] s = s"
| "trend_passes byTimeframe (allData # later) s =
     trend_passes byTimeframe later (snd (trend_analyzeAllData byTimeframe allData s))"


section \<open>What a pass leaves of an entry\<close>

text \<open>
  The counter, the score and the related keywords of an entry, and what processing one
  payload does to them; \<open>related\<close> gives the keywords to add.
\<close>

definition entry_view :: "'a keyword_data_scheme \<Rightarrow> int \<times> rat \<times> string list" where
  "entry_view e = (mentions e, sentiment e, relatedKeywords e)"

definition view_step ::
  "(json \<Rightarrow> string list) \<Rightarrow> (int \<times> rat \<times> string list) option \<Rightarrow> json
    \<Rightarrow> (int \<times> rat \<times> string list) option" where
  "view_step related v results =
     (case v of
        None \<Rightarrow>
          Some (1, calculateSentiment results,
                foldl (\<lambda>ks k. push_new k ks) [] (related results))
      | Some (m, score, ks0) \<Rightarrow>
          Some (m + 1, calculateSentiment results,
                foldl (\<lambda>ks k. push_new k ks) ks0 (related results)))"

definition keyword_related :: "engine \<Rightarrow> string \<Rightarrow> json \<Rightarrow> string list" where
  "keyword_related srt q results = filter (\<lambda>k. k \<noteq> q) (extractKeywords srt results)"

text \<open>Relations between the state before and after a step that writes one member only.\<close>

definition world_only :: "'a world_scheme \<Rightarrow> 'a world_scheme \<Rightarrow> bool" where
  "world_only w w' = (\<exists>n. w' = w\<lparr>tick := n\<rparr>)"

definition niches_only :: "'tf trend_service \<Rightarrow> 'tf trend_service \<Rightarrow> bool" where
  "niches_only s s' = (\<exists>n ns. s' = s\<lparr>tick := n, trendData := (trendData s)\<lparr>trend_niches := ns\<rparr>\<rparr>)"

definition keywords_only :: "'tf trend_service \<Rightarrow> 'tf trend_service \<Rightarrow> bool" where
  "keywords_only s s' = (\<exists>n m. s' = s\<lparr>tick := n, trendData := (trendData s)\<lparr>trend_keywords := m\<rparr>\<rparr>)"

definition products_only :: "'tf trend_service \<Rightarrow> 'tf trend_service \<Rightarrow> bool" where
  "products_only s s' = (\<exists>n m. s' = s\<lparr>tick := n, trendData := (trendData s)\<lparr>trend_products := m\<rparr>\<rparr>)"


text \<open>
  The state in which \<open>analyzeAllData\<close> starts its passes: the service after the lazy
  \<open>initialize\<close>.
\<close>

definition trend_started :: "'tf trend_service \<Rightarrow> 'tf trend_service" where
  "trend_started s = (if \<not> initialized s then snd (trend_initialize s) else s)"


text \<open>
  A persisted document is sound when no popularity in it is negative (the service
  itself writes no other document).
\<close>

definition sound_document :: "'tf trend_data stored option \<Rightarrow> bool" where
  "sound_document st =
     (case st of
        Some (Document d) \<Rightarrow>
          (\<forall>n e. map_of (trend_niches d) n = Some e \<longrightarrow> 0 \<le> popularity e)
      | _ \<Rightarrow> True)"

text \<open>
  A service is settled when its lazy initialisation no longer changes the data in
  memory: it is initialised, or the persisted text cannot be parsed, or the persisted
  document is the data in memory.
\<close>

definition settled :: "'tf trend_service \<Rightarrow> bool" where
  "settled s =
     (initialized s \<or> localStorage s = Some Unparsable
      \<or> localStorage s = Some (Document (trendData s)))"

definition popularity_invariant :: "'tf trend_service \<Rightarrow> bool" where
  "popularity_invariant s =
     ((\<forall>n p. popularity_of s n = Some p \<longrightarrow> 0 \<le> p)
      \<and> sound_document (localStorage s)
      \<and> (settled s \<or> trend_niches (trendData s) = []))"


section \<open>Sample inputs\<close>

text \<open>
  An environment, fresh services in it (no browser storage), trivial stand-ins for the
  code that is not among the sources, and a few records.
\<close>

definition sample_clock :: "nat \<Rightarrow> string" where
  "sample_clock n = ''2025-01-01T00:00:00.000Z''"

definition sample_uid :: "nat \<Rightarrow> string" where
  "sample_uid n = show_int (int n)"

definition sample_random :: "nat \<Rightarrow> rat" where
  "sample_random n = 1 / 2"

text \<open>An engine whose sort leaves the entries as they are where the order is up to it.\<close>

definition sample_engine :: engine where
  "sample_engine entries = entries"

definition sample_trends :: "unit trend_service" where
  "sample_trends =
     TrendAnalysisService sample_clock sample_uid sample_random sample_engine None ()"

definition sample_competitors :: "unit competitor_service" where
  "sample_competitors = CompetitorAnalysisService sample_clock sample_uid sample_random None ()"

definition no_timeframes :: "unit timeframe_pass" where
  "no_timeframes allData tf = (None, tf)"

definition sample_unseen :: "unit unseen" where
  "sample_unseen =
     \<lparr>calculateEngagement = (\<lambda>v. Inr (JNum 0)),
      determineNiche = determineNiche_spec,
      extractGenericCompetitors = (\<lambda>results src s. (None, s)),
      analyzeCompetitorStrategies = (\<lambda>s. (None, s)),
      analyzeCompetitorContent = (\<lambda>s. (None, s)),
      analyzeCompetitorPerformance = (\<lambda>s. (None, s)),
      competitor_analyzeByNiche = (\<lambda>s. (None, s))\<rparr>"

definition sample_tweet :: json where
  "sample_tweet =
     JObj [(''id'', JStr ''1''),
           (''text'', JStr ''ai tips''),
           (''user'', JObj [(''id'', JStr ''123''),
                            (''name'', JStr ''Top Affiliate''),
                            (''followers_count'', JNum 5000)])]"

definition sample_record :: item where
  "sample_record =
     \<lparr>item_id = ''socialMedia_twitter_2025'', category = ''socialMedia'', source = ''twitter'',
      timestamp = ''2025'',
      data = JObj [(''query'', JStr ''ai''), (''results'', JArr [sample_tweet])]\<rparr>"

definition sample_video :: json where
  "sample_video =
     JObj [(''id'', JStr ''v1''),
           (''description'', JStr ''ai tips''),
           (''author'', JObj [(''id'', JStr ''a1''),
                              (''username'', JStr ''creator''),
                              (''followers'', JNum 9000)])]"

definition sample_tiktok_record :: item where
  "sample_tiktok_record =
     \<lparr>item_id = ''socialMedia_tiktok_2025'', category = ''socialMedia'', source = ''tiktok'',
      timestamp = ''2025'',
      data = JObj [(''query'', JStr ''ai''), (''results'', JArr [sample_video])]\<rparr>"






text \<open>Two records for the keyword \<open>ai\<close> and the product \<open>p1\<close>, one praising, one complaining.\<close>

definition praise_record :: item where
  "praise_record =
     \<lparr>item_id = ''affiliateNetworks_amazon_2025a'', category = ''affiliateNetworks'',
      source = ''amazon'', timestamp = ''2025a'',
      data = JObj [(''query'', JStr ''AI''),
                   (''results'', JArr [JObj [(''id'', JStr ''p1''), (''title'', JStr ''good'')]])]\<rparr>"

definition complaint_record :: item where
  "complaint_record =
     \<lparr>item_id = ''affiliateNetworks_amazon_2025b'', category = ''affiliateNetworks'',
      source = ''amazon'', timestamp = ''2025b'',
      data = JObj [(''query'', JStr ''ai''),
                   (''results'', JArr [JObj [(''id'', JStr ''p1''), (''title'', JStr ''bad'')]])]\<rparr>"

text \<open>
  A record whose query and whose product id name members of \<open>Object.prototype\<close>.
\<close>

definition constructor_record :: item where
  "constructor_record =
     \<lparr>item_id = ''websites_custom_2025c'', category = ''websites'', source = ''custom'',
      timestamp = ''2025c'',
      data = JObj [(''query'', JStr ''Constructor''),
                   (''results'', JArr [JObj [(''id'', JStr ''toString''), (''title'', JStr ''bad'')]])]\<rparr>"

text \<open>The default focus niches with equal priorities.\<close>

definition equal_priorities :: "(string \<times> rat) list" where
  "equal_priorities = map (\<lambda>niche. (niche, 1)) preferredNiches"


chapter \<open>Verified properties\<close>

section \<open>Properties of the sentiment score\<close>

lemma toFixed2_close: "\<bar>toFixed2 x - x\<bar> \<le> 1 / 200"
proof -
  define r :: rat where "r = of_int (round (\<bar>x\<bar> * 100))"
  have a: "\<bar>r - \<bar>x\<bar> * 100\<bar> \<le> 1 / 2"
    unfolding r_def by (rule of_int_round_abs_le)
  have e: "toFixed2 x - x = sgn x * (r - \<bar>x\<bar> * 100) / 100"
    unfolding toFixed2_def r_def by (simp add: sgn_if field_simps)
  have "\<bar>toFixed2 x - x\<bar> = \<bar>sgn x\<bar> * \<bar>r - \<bar>x\<bar> * 100\<bar> / 100"
    unfolding e by (simp add: abs_mult)
  also have "\<dots> \<le> 1 * \<bar>r - \<bar>x\<bar> * 100\<bar> / 100"
    by (intro divide_right_mono mult_right_mono) (auto simp: sgn_if)
  also have "\<dots> \<le> 1 / 200"
    using a by simp
  finally show ?thesis .
qed

lemma toFixed2_bound:
  assumes "\<bar>x\<bar> \<le> 1"
  shows "\<bar>toFixed2 x\<bar> \<le> 1"
proof -
  have "\<bar>x\<bar> * 100 \<le> of_int 100"
    using assms by simp
  then have "round (\<bar>x\<bar> * 100) \<le> round (of_int 100 :: rat)"
    by (rule round_mono)
  then have le: "round (\<bar>x\<bar> * 100) \<le> 100"
    by simp
  have "(0::rat) \<le> \<bar>x\<bar> * 100"
    by simp
  then have "round (0::rat) \<le> round (\<bar>x\<bar> * 100)"
    by (rule round_mono)
  then have ge: "0 \<le> round (\<bar>x\<bar> * 100)"
    by simp
  have "\<bar>toFixed2 x\<bar> = \<bar>sgn x\<bar> * of_int (round (\<bar>x\<bar> * 100)) / 100"
    unfolding toFixed2_def using ge by (simp add: abs_mult)
  also have "\<dots> \<le> 1 * of_int (round (\<bar>x\<bar> * 100)) / 100"
    using ge by (intro divide_right_mono mult_right_mono) (auto simp: sgn_if)
  also have "\<dots> \<le> 1"
    using le by simp
  finally show ?thesis .
qed

lemma toFixed2_zero: "toFixed2 0 = 0"
  by (simp add: toFixed2_def)

lemma sentiment_ratio_bound: "\<bar>sentiment_ratio results\<bar> \<le> 1"
proof -
  have "\<bar>(of_nat p - of_nat n :: rat)\<bar> \<le> of_nat (p + n)" for p n :: nat
    by (simp add: abs_le_iff)
  then show ?thesis
    unfolding sentiment_ratio_def by (simp add: divide_le_eq del: of_nat_add)
qed

lemma counts_of_undefined:
  "positiveCount JUndefined = 0" "negativeCount JUndefined = 0"
  by code_simp+

lemma calculateSentiment_toFixed2:
  "calculateSentiment results = toFixed2 (sentiment_ratio results)"
proof (cases "results = JUndefined")
  case True
  then show ?thesis
    by (simp add: calculateSentiment_def JSON_stringify_def sentiment_ratio_def
        counts_of_undefined toFixed2_zero)
next
  case False
  then show ?thesis
    by (simp add: calculateSentiment_def JSON_stringify_def sentiment_ratio_def
        positiveCount_def negativeCount_def toFixed2_zero Let_def)
qed

lemma sample_positive: "positiveCount (JArr [JStr ''good good bad'']) = 2"
  by code_simp

lemma sample_negative: "negativeCount (JArr [JStr ''good good bad'']) = 1"
  by code_simp

lemma toFixed2_third: "toFixed2 (1 / 3) = 33 / 100"
  by code_simp

text \<open>
  Claim C3, as stated: \<open>calculateSentiment\<close> returns \<open>(pos - neg) / (pos + neg)\<close>.  It does
  not on the payload \<open>["good good bad"]\<close>: the counts are 2 and 1, the quotient is
  \<open>1/3\<close>, and the function returns \<open>0.33\<close>.
\<close>

theorem calculateSentiment_not_exact_ratio:
  "calculateSentiment (JArr [JStr ''good good bad''])
     \<noteq> sentiment_ratio (JArr [JStr ''good good bad''])"
proof -
  have "sentiment_ratio (JArr [JStr ''good good bad'']) = 1 / 3"
    by (simp add: sentiment_ratio_def sample_positive sample_negative)
  moreover have "calculateSentiment (JArr [JStr ''good good bad'']) = 33 / 100"
    by (simp add: calculateSentiment_toFixed2 sentiment_ratio_def sample_positive
        sample_negative toFixed2_third)
  ultimately show ?thesis
    by simp
qed

text \<open>
  Claim C3, amended: for every results payload \<open>calculateSentiment\<close> returns the quotient
  \<open>(pos - neg) / (pos + neg)\<close> of the whole-word counts rounded to two decimals, hence a
  value within \<open>0.005\<close> of the quotient; it returns exactly \<open>0\<close> when both counts are zero,
  and the value lies in \<open>[-1, 1]\<close>.  Being a function of the payload alone it is
  deterministic.
\<close>

theorem calculateSentiment_rounded_ratio:
  "calculateSentiment results = toFixed2 (sentiment_ratio results)
   \<and> (positiveCount results + negativeCount results = 0 \<longrightarrow> calculateSentiment results = 0)
   \<and> - 1 \<le> calculateSentiment results \<and> calculateSentiment results \<le> 1
   \<and> \<bar>calculateSentiment results - sentiment_ratio results\<bar> \<le> 1 / 200"
proof -
  have eq: "calculateSentiment results = toFixed2 (sentiment_ratio results)"
    by (rule calculateSentiment_toFixed2)
  have zero: "positiveCount results + negativeCount results = 0 \<longrightarrow> calculateSentiment results = 0"
    by (simp add: eq sentiment_ratio_def toFixed2_zero)
  have "\<bar>calculateSentiment results\<bar> \<le> 1"
    unfolding eq by (rule toFixed2_bound) (rule sentiment_ratio_bound)
  then have range: "- 1 \<le> calculateSentiment results \<and> calculateSentiment results \<le> 1"
    by (simp add: abs_le_iff)
  have close: "\<bar>calculateSentiment results - sentiment_ratio results\<bar> \<le> 1 / 200"
    unfolding eq by (rule toFixed2_close)
  from eq zero range close show ?thesis
    by blast
qed

theorem calculateSentiment_rounded_ratio_witness:
  "positiveCount (JArr [JStr ''plain text'']) + negativeCount (JArr [JStr ''plain text'']) = 0
   \<and> calculateSentiment (JArr [JStr ''plain text'']) = 0"
proof -
  have h: "positiveCount (JArr [JStr ''plain text'']) + negativeCount (JArr [JStr ''plain text'']) = 0"
    by code_simp
  show ?thesis
    using h calculateSentiment_rounded_ratio [of "JArr [JStr ''plain text'']"] by simp
qed

section \<open>Empty snapshots\<close>

text \<open>
  Claim C5: on an empty Record Store snapshot both \<open>analyzeAllData\<close> operations return
  \<open>{success: false, message}\<close> (they return, no exception), and the derived state is
  unaffected: nothing is written to the persisted document, and the data in memory is
  what it was, or, on the first use of the service, the persisted document that the lazy
  initialisation loads.  A service that is already initialised does not change at all.
\<close>

theorem empty_snapshot_soft_failure:
  "fst (trend_analyzeAllData byTimeframe [] ts)
     = \<lparr>success = False, message = ''No data available for analysis'', returned = None\<rparr>
   \<and> localStorage (snd (trend_analyzeAllData byTimeframe [] ts)) = localStorage ts
   \<and> (trendData (snd (trend_analyzeAllData byTimeframe [] ts)) = trendData ts
        \<or> localStorage ts = Some (Document (trendData (snd (trend_analyzeAllData byTimeframe [] ts)))))
   \<and> (initialized ts \<longrightarrow> snd (trend_analyzeAllData byTimeframe [] ts) = ts)
   \<and> fst (competitor_analyzeAllData un [] cs)
     = \<lparr>success = False, message = ''No data available for analysis'', returned = None\<rparr>
   \<and> localStorage (snd (competitor_analyzeAllData un [] cs)) = localStorage cs
   \<and> (competitorData (snd (competitor_analyzeAllData un [] cs)) = competitorData cs
        \<or> localStorage cs = Some (Document (competitorData (snd (competitor_analyzeAllData un [] cs)))))
   \<and> (initialized cs \<longrightarrow> snd (competitor_analyzeAllData un [] cs) = cs)"
proof -
  have t: "fst (trend_analyzeAllData byTimeframe [] ts)
     = \<lparr>success = False, message = ''No data available for analysis'', returned = None\<rparr>
   \<and> localStorage (snd (trend_analyzeAllData byTimeframe [] ts)) = localStorage ts
   \<and> (trendData (snd (trend_analyzeAllData byTimeframe [] ts)) = trendData ts
        \<or> localStorage ts = Some (Document (trendData (snd (trend_analyzeAllData byTimeframe [] ts)))))
   \<and> (initialized ts \<longrightarrow> snd (trend_analyzeAllData byTimeframe [] ts) = ts)"
    by (auto simp: trend_analyzeAllData_def trend_initialize_def
        split: option.splits stored.splits)
  have c: "fst (competitor_analyzeAllData un [] cs)
     = \<lparr>success = False, message = ''No data available for analysis'', returned = None\<rparr>
   \<and> localStorage (snd (competitor_analyzeAllData un [] cs)) = localStorage cs
   \<and> (competitorData (snd (competitor_analyzeAllData un [] cs)) = competitorData cs
        \<or> localStorage cs = Some (Document (competitorData (snd (competitor_analyzeAllData un [] cs)))))
   \<and> (initialized cs \<longrightarrow> snd (competitor_analyzeAllData un [] cs) = cs)"
    by (auto simp: competitor_analyzeAllData_def competitor_initialize_def
        split: option.splits stored.splits)
  from t c show ?thesis
    by blast
qed

theorem empty_snapshot_soft_failure_witness:
  "initialized (snd (trend_initialize sample_trends))
   \<and> snd (trend_analyzeAllData no_timeframes [] (snd (trend_initialize sample_trends)))
       = snd (trend_initialize sample_trends)
   \<and> initialized (snd (competitor_initialize sample_competitors))
   \<and> snd (competitor_analyzeAllData sample_unseen [] (snd (competitor_initialize sample_competitors)))
       = snd (competitor_initialize sample_competitors)"
proof -
  have t: "initialized (snd (trend_initialize sample_trends))"
    by (simp add: trend_initialize_def sample_trends_def TrendAnalysisService_def)
  have c: "initialized (snd (competitor_initialize sample_competitors))"
    by (simp add: competitor_initialize_def sample_competitors_def CompetitorAnalysisService_def)
  show ?thesis
    using t c
      empty_snapshot_soft_failure [of no_timeframes "snd (trend_initialize sample_trends)"
        sample_unseen "snd (competitor_initialize sample_competitors)"]
    by simp
qed

section \<open>Updating or removing a competitor that does not exist\<close>

text \<open>
  Claim C8, as stated: the missing id makes \<open>updateCompetitor\<close> and \<open>removeCompetitor\<close>
  throw to their caller, who turns the error into a \<open>{success: false}\<close> result.  On a
  service without competitors both calls return the boolean \<open>false\<close> instead.
\<close>

theorem missing_competitor_returns_false:
  "updateCompetitor (JStr ''competitor_9'') [] sample_competitors = (Inr False, sample_competitors)
   \<and> removeCompetitor (JStr ''competitor_9'') sample_competitors = (Inr False, sample_competitors)"
  by (simp add: updateCompetitor_def updateCompetitor_try_def removeCompetitor_def
      removeCompetitor_try_def stored_competitor_def sample_competitors_def
      CompetitorAnalysisService_def prototype_members_def)

text \<open>
  An id that \<open>competitors\<close> does not own and that names no member of \<open>Object.prototype\<close>
  finds nothing, as long as no assignment to \<open>__proto__\<close> has put an object in front of
  \<open>Object.prototype\<close>.
\<close>

lemma unknown_id_is_missing:
  assumes "map_of (competitors (competitorData s)) (js_toString cid) = None"
    and "js_toString cid \<notin> set prototype_members"
    and "competitors_prototype s = None"
  shows "stored_competitor s cid = Missing"
  using assms by (simp add: stored_competitor_def)

text \<open>
  Claim C8, amended: for an id under which \<open>competitors[id]\<close> is not truthy (the map owns
  no truthy member of that name and inherits none) the \<open>try\<close> block of \<open>updateCompetitor\<close>
  and of \<open>removeCompetitor\<close> throws the not-found error, the \<open>catch\<close> of the same function
  turns it into the return value \<open>false\<close>, so that no exception reaches the caller, and the
  service, with its competitor map, is left unchanged.
\<close>

theorem missing_competitor_caught_inside:
  assumes "\<not> truthy_lookup (stored_competitor s cid)"
  shows "fst (updateCompetitor_try cid updates s)
           = Inl (Error (''Competitor with ID '' @ js_toString cid @ '' not found''))
         \<and> updateCompetitor cid updates s = (Inr False, s)
         \<and> fst (removeCompetitor_try cid s)
           = Inl (Error (''Competitor with ID '' @ js_toString cid @ '' not found''))
         \<and> removeCompetitor cid s = (Inr False, s)"
  using assms
  by (simp add: updateCompetitor_try_def updateCompetitor_def removeCompetitor_try_def
      removeCompetitor_def)

theorem missing_competitor_caught_inside_witness:
  "\<not> truthy_lookup (stored_competitor sample_competitors (JStr ''competitor_9''))
   \<and> updateCompetitor (JStr ''competitor_9'') [(''niche'', JStr ''x'')] sample_competitors
       = (Inr False, sample_competitors)
   \<and> removeCompetitor (JStr ''competitor_9'') sample_competitors = (Inr False, sample_competitors)"
proof -
  have h: "\<not> truthy_lookup (stored_competitor sample_competitors (JStr ''competitor_9''))"
    by (simp add: stored_competitor_def sample_competitors_def CompetitorAnalysisService_def
        prototype_members_def)
  show ?thesis
    using h missing_competitor_caught_inside [OF h, of "[(''niche'', JStr ''x'')]"] by simp
qed

text \<open>
  Where the read finds something truthy, both functions return \<open>true\<close>.  That is so for an
  id that names a member of \<open>Object.prototype\<close>, although no competitor is stored under
  it: \<open>updateCompetitor\<close> then writes an entry with the updates alone, or, for \<open>__proto__\<close>,
  makes them the prototype of the map.
\<close>

lemma found_competitor_returns_true:
  assumes "truthy_lookup (stored_competitor s cid)"
  shows "fst (updateCompetitor cid updates s) = Inr True"
    and "fst (removeCompetitor cid s) = Inr True"
  using assms
  by (simp_all add: updateCompetitor_try_def updateCompetitor_def removeCompetitor_try_def
      removeCompetitor_def Let_def split: prod.splits)

lemma inherited_id_is_found:
  "fst (updateCompetitor (JStr ''constructor'') [(''niche'', JStr ''x'')] sample_competitors)
     = Inr True"
  "competitors (competitorData
     (snd (updateCompetitor (JStr ''constructor'') [(''niche'', JStr ''x'')] sample_competitors)))
     = [(''constructor'',
         JObj [(''niche'', JStr ''x''), (''lastUpdated'', JStr ''2025-01-01T00:00:00.000Z'')])]"
  "fst (removeCompetitor (JStr ''toString'') sample_competitors) = Inr True"
  "fst (updateCompetitor (JStr ''__proto__'') [(''niche'', JStr ''x'')] sample_competitors)
     = Inr True"
  "competitors (competitorData
     (snd (updateCompetitor (JStr ''__proto__'') [(''niche'', JStr ''x'')] sample_competitors)))
     = []"
  "competitors_prototype
     (snd (updateCompetitor (JStr ''__proto__'') [(''niche'', JStr ''x'')] sample_competitors))
     = Some [(''niche'', JStr ''x''), (''lastUpdated'', JStr ''2025-01-01T00:00:00.000Z'')]"
  by code_simp+

section \<open>Failures of the passes are not reported\<close>










section \<open>The budget allocation\<close>

lemma round_cents_close: "\<bar>round_cents x - x\<bar> \<le> 1 / 200"
proof -
  have "\<bar>of_int (round (x * 100)) - x * 100\<bar> \<le> 1 / 2"
    by (rule of_int_round_abs_le)
  then show ?thesis
    unfolding round_cents_def by (simp add: field_simps)
qed

lemma update_fresh_key: "k \<notin> fst ` set acc \<Longrightarrow> AList.update k v acc = acc @ [(k, v)]"
  by (induction acc) auto

lemma allocation_fold_distinct:
  "distinct (map fst pn) \<Longrightarrow> fst ` set acc \<inter> fst ` set pn = {} \<Longrightarrow>
   ''__proto__'' \<notin> fst ` set pn \<Longrightarrow>
   foldl (\<lambda>allocation n. if fst n = ''__proto__'' then allocation
                          else AList.update (fst n) (f (snd n)) allocation) acc pn
     = acc @ map (\<lambda>n. (fst n, f (snd n))) pn"
proof (induction pn arbitrary: acc)
  case Nil
  then show ?case by simp
next
  case (Cons n pn)
  have u: "AList.update (fst n) (f (snd n)) acc = acc @ [(fst n, f (snd n))]"
    using Cons.prems(2) by (intro update_fresh_key) auto
  show ?case
    using Cons.prems Cons.IH[of "acc @ [(fst n, f (snd n))]"] by (auto simp: u)
qed

lemma total_fold: "foldl (\<lambda>sum n. sum + snd n) a pn = a + sum_list (map snd pn)" for a :: rat
  by (induction pn arbitrary: a) (auto simp: algebra_simps)

lemma sum_fold_some:
  "foldl (\<lambda>acc kv. case acc of None \<Rightarrow> None
                     | Some a \<Rightarrow> (case snd kv of None \<Rightarrow> None | Some b \<Rightarrow> Some (a + b)))
     (Some a) (map (\<lambda>n. (fst n, Some (g (snd n)))) pn)
   = Some (a + sum_list (map (\<lambda>n. g (snd n)) pn))" for a :: rat
  by (induction pn arbitrary: a) (auto simp: algebra_simps)

lemma rounded_sum_close:
  "\<bar>sum_list (map (\<lambda>n. round_cents (h n)) pn) - sum_list (map h pn)\<bar> \<le> of_nat (length pn) / 200"
proof (induction pn)
  case Nil
  then show ?case by simp
next
  case (Cons n pn)
  have "\<bar>round_cents (h n) - h n\<bar> \<le> 1 / 200"
    by (rule round_cents_close)
  moreover have "\<bar>sum_list (map (\<lambda>n. round_cents (h n)) pn) - sum_list (map h pn)\<bar>
        \<le> of_nat (length pn) / 200"
    by (rule Cons.IH)
  ultimately have "\<bar>(round_cents (h n) - h n)
        + (sum_list (map (\<lambda>n. round_cents (h n)) pn) - sum_list (map h pn))\<bar>
        \<le> 1 / 200 + of_nat (length pn) / 200"
    by (intro order_trans[OF abs_triangle_ineq] add_mono)
  then show ?case
    by (simp add: algebra_simps add_divide_distrib)
qed

lemma allocation_sum_close:
  assumes "distinct (map fst pn)" and "sum_list (map snd pn) \<noteq> 0"
    and "''__proto__'' \<notin> set (map fst pn)"
  shows "\<exists>t. allocation_sum (budgetAllocation pn b) = Some t
             \<and> \<bar>t - b\<bar> \<le> of_nat (length pn) / 200"
proof -
  define T where "T = sum_list (map snd pn)"
  have alloc: "budgetAllocation pn b = map (\<lambda>n. (fst n, Some (round_cents ((snd n / T) * b)))) pn"
    using assms allocation_fold_distinct[of pn "[]" "share T b"]
    unfolding budgetAllocation_def Let_def total_fold add.left_neutral T_def
    by (simp add: share_def)
  have s: "allocation_sum (budgetAllocation pn b)
             = Some (sum_list (map (\<lambda>n. round_cents ((snd n / T) * b)) pn))"
    unfolding alloc allocation_sum_def
    using sum_fold_some[of 0 "\<lambda>p. round_cents ((p / T) * b)" pn] by simp
  have "sum_list (map (\<lambda>n. (snd n / T) * b) pn) = (sum_list (map snd pn) / T) * b"
    by (induction pn) (auto simp: algebra_simps add_divide_distrib)
  then have exact: "sum_list (map (\<lambda>n. (snd n / T) * b) pn) = b"
    using assms(2) by (simp add: T_def)
  have "\<bar>sum_list (map (\<lambda>n. round_cents ((snd n / T) * b)) pn) - b\<bar> \<le> of_nat (length pn) / 200"
    using rounded_sum_close[of "\<lambda>n. (snd n / T) * b" pn] exact by simp
  with s show ?thesis
    by blast
qed

lemma equal_priorities_allocation:
  "allocation_sum (allocation (last (snd (generateBudgetStrategy
      (Inr equal_priorities) (1003 / 100) (Inr ()) [])))) = Some (1005 / 100)"
  by code_simp

text \<open>
  Claim C2, as stated: the allocations sum to the budget within \<open>0.01\<close>.  With the five
  default niches at equal priority and a budget of \<open>10.03\<close> every niche gets \<open>2.01\<close>; the
  sum \<open>10.05\<close> is \<open>0.02\<close> above the budget.
\<close>

theorem budget_allocation_off_by_two_cents:
  "allocation_sum (allocation (last (snd (generateBudgetStrategy
      (Inr equal_priorities) (1003 / 100) (Inr ()) [])))) = Some (1005 / 100)
   \<and> \<bar>(1005 / 100 :: rat) - 1003 / 100\<bar> > 1 / 100"
  using equal_priorities_allocation by simp

text \<open>
  Claim C2, amended: for prioritised niches with distinct names, none of them
  \<open>__proto__\<close>, whose priorities do not sum to zero, \<open>generateBudgetStrategy\<close> succeeds and
  its allocations, each \<open>priority / \<Sigma>priority \<times> budget\<close> rounded to cents, sum to
  \<open>options.budget\<close> within \<open>0.005\<close> per niche, that is within \<open>0.005 \<times> |focusNiches|\<close> (which is
  \<open>0.01\<close> for up to two niches).
\<close>

theorem budget_allocation_sum_close:
  assumes "distinct (map fst prioritizedNiches)"
    and "sum_list (map snd prioritizedNiches) \<noteq> 0"
    and "''__proto__'' \<notin> set (map fst prioritizedNiches)"
  shows "fst (generateBudgetStrategy (Inr prioritizedNiches) budget (Inr r) strategies)
         \<and> (\<exists>t. allocation_sum (allocation (last (snd (generateBudgetStrategy
                    (Inr prioritizedNiches) budget (Inr r) strategies)))) = Some t
                \<and> \<bar>t - budget\<bar> \<le> of_nat (length prioritizedNiches) / 200)"
  using allocation_sum_close[OF assms, of budget]
  by (simp add: generateBudgetStrategy_def)

theorem budget_allocation_sum_close_witness:
  "distinct (map fst equal_priorities) \<and> sum_list (map snd equal_priorities) \<noteq> 0
   \<and> ''__proto__'' \<notin> set (map fst equal_priorities)
   \<and> (\<exists>t. allocation_sum (allocation (last (snd (generateBudgetStrategy
              (Inr equal_priorities) 20 (Inr ()) [])))) = Some t
          \<and> \<bar>t - 20\<bar> \<le> of_nat (length equal_priorities) / 200)"
proof -
  have d: "distinct (map fst equal_priorities)"
    by (simp add: equal_priorities_def preferredNiches_def)
  have n: "sum_list (map snd equal_priorities) \<noteq> 0"
    by (simp add: equal_priorities_def preferredNiches_def)
  have p: "''__proto__'' \<notin> set (map fst equal_priorities)"
    by (simp add: equal_priorities_def preferredNiches_def)
  show ?thesis
    using d n p budget_allocation_sum_close [OF d n p, of 20 "()" "[]"] by simp
qed

text \<open>
  The names must not include \<open>__proto__\<close>: a niche of that name gets no member of the
  allocation.  Of a budget of 10 for two niches of equal priority only 5 are allocated.
\<close>

lemma proto_niche_gets_no_allocation:
  "distinct (map fst [(''__proto__'', 1 :: rat), (''AI & Automation Tools'', 1)])"
  "sum_list (map snd [(''__proto__'', 1 :: rat), (''AI & Automation Tools'', 1)]) \<noteq> 0"
  "allocation (last (snd (generateBudgetStrategy
      (Inr [(''__proto__'', 1), (''AI & Automation Tools'', 1)]) 10 (Inr ()) [])))
     = [(''AI & Automation Tools'', Some 5)]"
  "allocation_sum (allocation (last (snd (generateBudgetStrategy
      (Inr [(''__proto__'', 1), (''AI & Automation Tools'', 1)]) 10 (Inr ()) []))))
     = Some 5"
  by code_simp+

section \<open>De-duplication of competitors\<close>

text \<open>
  Claim C4 fails on the code.  \<open>addCompetitor\<close> does not copy \<open>platformId\<close> into the
  stored profile, so the search \<open>competitor.platformId === user.id\<close> of the Twitter and
  TikTok extractors never finds the profile of an account that has an id.  Analysing a
  store that holds one Twitter record (one TikTok record) twice leaves two profiles of
  the same account.
\<close>

theorem same_record_twice_two_profiles:
  "map (\<lambda>c. (member_of c ''platform'', member_of c ''name''))
     (getAllCompetitors
        (snd (competitor_analyzeAllData sample_unseen [sample_record]
                (snd (competitor_analyzeAllData sample_unseen [sample_record] sample_competitors)))))
     = [(JStr ''twitter'', JStr ''Top Affiliate''), (JStr ''twitter'', JStr ''Top Affiliate'')]
   \<and> map (\<lambda>c. (member_of c ''platform'', member_of c ''name''))
     (getAllCompetitors
        (snd (competitor_analyzeAllData sample_unseen [sample_tiktok_record]
                (snd (competitor_analyzeAllData sample_unseen [sample_tiktok_record]
                        sample_competitors)))))
     = [(JStr ''tiktok'', JStr ''creator''), (JStr ''tiktok'', JStr ''creator'')]"
  by code_simp


section \<open>What a pass leaves untouched\<close>

lemma world_only_refl: "world_only w w"
  unfolding world_only_def by (rule exI[of _ "tick w"]) simp

lemma world_only_trans: "world_only a b \<Longrightarrow> world_only b c \<Longrightarrow> world_only a c"
  unfolding world_only_def by auto

lemma niches_only_refl: "niches_only s s"
  unfolding niches_only_def
  by (rule exI[of _ "tick s"], rule exI[of _ "trend_niches (trendData s)"]) simp

lemma niches_only_trans:
  assumes "niches_only a b" and "niches_only b c"
  shows "niches_only a c"
proof -
  obtain n x where b: "b = a\<lparr>tick := n, trendData := (trendData a)\<lparr>trend_niches := x\<rparr>\<rparr>"
    using assms(1) unfolding niches_only_def by blast
  obtain n' x' where c: "c = b\<lparr>tick := n', trendData := (trendData b)\<lparr>trend_niches := x'\<rparr>\<rparr>"
    using assms(2) unfolding niches_only_def by blast
  have "c = a\<lparr>tick := n', trendData := (trendData a)\<lparr>trend_niches := x'\<rparr>\<rparr>"
    unfolding c b by simp
  then show ?thesis
    unfolding niches_only_def by blast
qed

lemma keywords_only_refl: "keywords_only s s"
  unfolding keywords_only_def
  by (rule exI[of _ "tick s"], rule exI[of _ "trend_keywords (trendData s)"]) simp

lemma keywords_only_trans:
  assumes "keywords_only a b" and "keywords_only b c"
  shows "keywords_only a c"
proof -
  obtain n x where b: "b = a\<lparr>tick := n, trendData := (trendData a)\<lparr>trend_keywords := x\<rparr>\<rparr>"
    using assms(1) unfolding keywords_only_def by blast
  obtain n' x' where c: "c = b\<lparr>tick := n', trendData := (trendData b)\<lparr>trend_keywords := x'\<rparr>\<rparr>"
    using assms(2) unfolding keywords_only_def by blast
  have "c = a\<lparr>tick := n', trendData := (trendData a)\<lparr>trend_keywords := x'\<rparr>\<rparr>"
    unfolding c b by simp
  then show ?thesis
    unfolding keywords_only_def by blast
qed

lemma products_only_refl: "products_only s s"
  unfolding products_only_def
  by (rule exI[of _ "tick s"], rule exI[of _ "trend_products (trendData s)"]) simp

lemma products_only_trans:
  assumes "products_only a b" and "products_only b c"
  shows "products_only a c"
proof -
  obtain n x where b: "b = a\<lparr>tick := n, trendData := (trendData a)\<lparr>trend_products := x\<rparr>\<rparr>"
    using assms(1) unfolding products_only_def by blast
  obtain n' x' where c: "c = b\<lparr>tick := n', trendData := (trendData b)\<lparr>trend_products := x'\<rparr>\<rparr>"
    using assms(2) unfolding products_only_def by blast
  have "c = a\<lparr>tick := n', trendData := (trendData a)\<lparr>trend_products := x'\<rparr>\<rparr>"
    unfolding c b by simp
  then show ?thesis
    unfolding products_only_def by blast
qed

lemma world_products:
  assumes "world_only s s'"
  shows "products_only s s'"
proof -
  obtain n where "s' = s\<lparr>tick := n\<rparr>"
    using assms unfolding world_only_def by blast
  then have "s' = s\<lparr>tick := n, trendData := (trendData s)\<lparr>trend_products := trend_products (trendData s)\<rparr>\<rparr>"
    by simp
  then show ?thesis
    unfolding products_only_def by blast
qed

lemma foldl_preorder:
  assumes "\<And>s. R s s" and "\<And>a b c. R a b \<Longrightarrow> R b c \<Longrightarrow> R a c" and "\<And>s x. R s (f s x)"
  shows "R s (foldl f s xs)"
proof (induction xs arbitrary: s)
  case Nil
  show ?case by (simp add: assms(1))
next
  case (Cons x xs)
  show ?case
    using assms(2)[OF assms(3)[of s x] Cons.IH[of "f s x"]] by simp
qed

lemma forEach_preorder:
  assumes "\<And>s. R s s" and "\<And>a b c. R a b \<Longrightarrow> R b c \<Longrightarrow> R a c" and "\<And>s x. R s (snd (f x s))"
  shows "R s (snd (forEach f xs s))"
proof (induction xs arbitrary: s)
  case Nil
  show ?case by (simp add: assms(1))
next
  case (Cons x xs)
  show ?case
  proof (cases "f x s")
    case (Pair eo s')
    have step: "R s s'" using assms(3)[of s x] Pair by simp
    show ?thesis
    proof (cases eo)
      case None
      then show ?thesis using Pair assms(2)[OF step Cons.IH[of s']] by simp
    next
      case (Some e)
      then show ?thesis using Pair step by simp
    qed
  qed
qed

lemma world_only_now: "world_only w (snd (now w))"
  unfolding world_only_def now_def by auto

lemma world_only_uid: "world_only w (snd (fresh_uid w))"
  unfolding world_only_def fresh_uid_def by auto

lemma world_only_product_of: "world_only w (snd (product_of r w))"
proof (cases "truthy (member_of r ''id'')")
  case True
  then show ?thesis
    using world_only_now[of w] by (simp add: product_of_def split: prod.splits) (metis snd_conv)
next
  case False
  then show ?thesis
    using world_only_trans[OF world_only_uid[of w] world_only_now[of "snd (fresh_uid w)"]]
    by (simp add: product_of_def split: prod.splits) (metis snd_conv)
qed

lemma world_only_extract_each: "world_only w (snd (extract_each rs w))"
proof (induction rs arbitrary: w)
  case Nil
  show ?case by (simp add: world_only_refl)
next
  case (Cons r rs)
  show ?case
    using Cons.IH[of w] world_only_trans[OF world_only_product_of[of w r] Cons.IH[of "snd (product_of r w)"]]
    by (auto simp: world_only_refl split: sum.splits prod.splits)
qed

lemma world_only_extractProducts: "world_only w (snd (extractProducts r w))"
proof (cases r)
  case (JArr rs)
  then show ?thesis
    using world_only_extract_each[of w rs]
    by (auto simp: extractProducts_def split: prod.splits sum.splits)
qed (simp_all add: extractProducts_def world_only_refl)


section \<open>The by-niche pass\<close>

lemma niches_onlyI:
  "s' = s\<lparr>tick := n, trendData := (trendData s)\<lparr>trend_niches := ns\<rparr>\<rparr> \<Longrightarrow> niches_only s s'"
  unfolding niches_only_def by blast

lemma initNiche_eq:
  "initNiche k s =
     (case map_of (trend_niches (trendData s)) k of
        Some nd \<Rightarrow> s
      | None \<Rightarrow> s\<lparr>tick := Suc (tick s),
                  trendData := (trendData s)\<lparr>trend_niches := trend_niches (trendData s)
                     @ [(k, \<lparr>popularity = 0, growth = 0, niche_keywords = [], niche_products = [],
                             niche_lastUpdated = clock s (tick s)\<rparr>)]\<rparr>\<rparr>)"
  by (simp add: initNiche_def now_def split: option.splits)

lemma niches_only_initNiche: "niches_only s (initNiche k s)"
  unfolding initNiche_eq
  by (auto split: option.splits intro: niches_only_refl niches_onlyI)

lemma popularity_initNiche:
  "popularity_of (initNiche k s) n
     = (if n = k \<and> popularity_of s n = None then Some 0 else popularity_of s n)"
  unfolding initNiche_eq popularity_of_def
  by (auto simp: map_add_def split: option.splits)

lemma popularity_init_all:
  "popularity_of (foldl (\<lambda>s' niche. initNiche niche s') s L) n
     = (if n \<in> set L \<and> popularity_of s n = None then Some 0 else popularity_of s n)"
proof (induction L arbitrary: s)
  case Nil
  show ?case by simp
next
  case (Cons k L)
  show ?case
    using Cons.IH[of "initNiche k s"] by (auto simp: popularity_initNiche)
qed

lemma countNicheMatch_eq:
  "\<exists>n f. countNicheMatch results niche s
     = s\<lparr>tick := n, trendData := (trendData s)\<lparr>trend_niches :=
           AList.map_entry niche f (trend_niches (trendData s))\<rparr>\<rparr>
     \<and> (\<forall>nd. popularity (f nd) = popularity nd + 1)"
proof -
  obtain ps s1 where e: "extractProducts results s = (ps, s1)"
    by (cases "extractProducts results s")
  obtain n where s1: "s1 = s\<lparr>tick := n\<rparr>"
    using world_only_extractProducts[of s results] e unfolding world_only_def by auto
  define f :: "niche_data \<Rightarrow> niche_data" where "f = (\<lambda>nicheData. nicheData
                    \<lparr>popularity := popularity nicheData + 1,
                     niche_keywords := foldl (\<lambda>ks k. push_new k ks) (niche_keywords nicheData)
                                         (extractKeywords (engine_sort s) results),
                     niche_products := foldl (\<lambda>ps p. push_new_product p ps)
                                         (niche_products nicheData) ps,
                     niche_lastUpdated := clock s n\<rparr>)"
  have "countNicheMatch results niche s
     = s\<lparr>tick := Suc n, trendData := (trendData s)\<lparr>trend_niches :=
           AList.map_entry niche f (trend_niches (trendData s))\<rparr>\<rparr>"
    unfolding countNicheMatch_def f_def
    by (simp add: e s1 now_def Let_def)
  moreover have "\<forall>nd. popularity (f nd) = popularity nd + 1"
    by (simp add: f_def)
  ultimately show ?thesis
    by blast
qed

lemma niches_only_countNicheMatch: "niches_only s (countNicheMatch results niche s)"
  using countNicheMatch_eq[of results niche s] by (auto intro: niches_onlyI)

lemma popularity_countNicheMatch:
  "popularity_of (countNicheMatch results niche s) n
     = (if n = niche then map_option (\<lambda>p. p + 1) (popularity_of s n) else popularity_of s n)"
proof -
  obtain m f where e: "countNicheMatch results niche s
     = s\<lparr>tick := m, trendData := (trendData s)\<lparr>trend_niches :=
           AList.map_entry niche f (trend_niches (trendData s))\<rparr>\<rparr>"
    and f: "\<forall>nd. popularity (f nd) = popularity nd + 1"
    using countNicheMatch_eq[of results niche s] by blast
  show ?thesis
    unfolding popularity_of_def e using f
    by (auto simp: map_of_map_entry split: option.splits)
qed

lemma popularity_match_all:
  assumes "distinct L"
  shows "popularity_of (foldl (\<lambda>s' niche. if P niche then countNicheMatch results niche s' else s') s L) n
     = (if n \<in> set L \<and> P n then map_option (\<lambda>p. p + 1) (popularity_of s n) else popularity_of s n)"
  using assms
proof (induction L arbitrary: s)
  case Nil
  show ?case by simp
next
  case (Cons k L)
  then show ?case
    by (auto simp: popularity_countNicheMatch)
qed

lemma niches_only_niche_item: "niches_only s (snd (niche_item it s))"
proof -
  have "niches_only s (foldl (\<lambda>s' niche. if P niche then countNicheMatch results niche s' else s') s L)"
    for P results L
    by (rule foldl_preorder[where R = niches_only])
       (auto intro: niches_only_refl niches_only_trans niches_only_countNicheMatch)
  then show ?thesis
    by (auto simp: niche_item_def Let_def niches_only_refl split: sum.splits)
qed

lemma distinct_preferredNiches: "distinct preferredNiches"
  by (simp add: preferredNiches_def)

lemma map_option_add: "map_option (\<lambda>p. p + b) (map_option (\<lambda>p. p + a) x) = map_option (\<lambda>p. p + (a + b)) x"
  for a b :: int
  by (cases x) auto

lemma popularity_niche_item:
  "popularity_of (snd (niche_item it s)) n
     = map_option (\<lambda>p. p + int (niche_count [it] n)) (popularity_of s n)"
  by (auto simp: niche_item_def Let_def popularity_match_all[OF distinct_preferredNiches]
      option.map_ident split: sum.splits)

lemma niche_item_throws:
  "fst (niche_item it s) \<noteq> None \<Longrightarrow> niche_count (it # rest) n = 0 \<and> snd (niche_item it s) = s"
  by (auto simp: niche_item_def Let_def split: sum.splits if_splits)

lemma niche_item_returns:
  "fst (niche_item it s) = None \<Longrightarrow> niche_count (it # rest) n = niche_count [it] n + niche_count rest n"
  by (auto simp: niche_item_def Let_def split: sum.splits if_splits)

lemma popularity_forEach_niche:
  "popularity_of (snd (forEach niche_item ds s)) n
     = map_option (\<lambda>p. p + int (niche_count ds n)) (popularity_of s n)"
proof (induction ds arbitrary: s)
  case Nil
  show ?case by (simp add: option.map_ident)
next
  case (Cons it ds)
  show ?case
  proof (cases "fst (niche_item it s)")
    case None
    then have "forEach niche_item (it # ds) s = forEach niche_item ds (snd (niche_item it s))"
      by (cases "niche_item it s") simp
    then show ?thesis
      using Cons.IH[of "snd (niche_item it s)"] niche_item_returns[OF None, of ds n]
      by (simp add: popularity_niche_item[of it s n] map_option_add del: niche_count.simps)
  next
    case (Some e)
    then have "snd (forEach niche_item (it # ds) s) = snd (niche_item it s)"
      by (cases "niche_item it s") simp
    then show ?thesis
      using niche_item_throws[of it s ds n] Some by (simp add: option.map_ident del: niche_count.simps)
  qed
qed

lemma niches_only_forEach_niche: "niches_only s (snd (forEach niche_item ds s))"
  by (rule forEach_preorder[where R = niches_only])
     (auto intro: niches_only_refl niches_only_trans niches_only_niche_item)

lemma growth_step_eq:
  "(let (r, s1) = Math_random s'
    in trendData_update (trend_niches_update (AList.map_entry niche
         (\<lambda>nicheData. nicheData\<lparr>growth := growth_of (popularity nicheData) r\<rparr>))) s1)
   = s'\<lparr>tick := Suc (tick s'), trendData := (trendData s')\<lparr>trend_niches :=
        AList.map_entry niche (\<lambda>nicheData. nicheData\<lparr>growth := growth_of (popularity nicheData) (random s' (tick s'))\<rparr>)
          (trend_niches (trendData s'))\<rparr>\<rparr>"
  by (simp add: Math_random_def)

lemma niches_only_growth: "niches_only s (snd (calculateNicheGrowth s))"
  unfolding calculateNicheGrowth_def snd_conv growth_step_eq
  by (rule foldl_preorder[where R = niches_only])
     (auto intro: niches_only_refl niches_only_trans niches_onlyI)

lemma popularity_growth_fold:
  "popularity_of (foldl (\<lambda>s' niche. s'\<lparr>tick := Suc (tick s'), trendData := (trendData s')\<lparr>trend_niches :=
        AList.map_entry niche (\<lambda>nicheData. nicheData\<lparr>growth := growth_of (popularity nicheData) (random s' (tick s'))\<rparr>)
          (trend_niches (trendData s'))\<rparr>\<rparr>) s L) n = popularity_of s n"
proof (induction L arbitrary: s)
  case Nil
  show ?case by simp
next
  case (Cons k L)
  show ?case
    unfolding foldl_Cons Cons.IH
    by (auto simp: popularity_of_def map_of_map_entry split: option.splits)
qed

lemma popularity_growth: "popularity_of (snd (calculateNicheGrowth s)) n = popularity_of s n"
  unfolding calculateNicheGrowth_def snd_conv growth_step_eq
  by (rule popularity_growth_fold)

lemma niches_only_analyzeByNiche: "niches_only s (snd (trend_analyzeByNiche ds s))"
proof -
  have a: "niches_only s (foldl (\<lambda>s' niche. initNiche niche s') s preferredNiches)"
    by (rule foldl_preorder[where R = niches_only])
       (auto intro: niches_only_refl niches_only_trans niches_only_initNiche)
  have b: "niches_only s (snd (forEach niche_item ds (foldl (\<lambda>s' niche. initNiche niche s') s preferredNiches)))"
    by (rule niches_only_trans[OF a niches_only_forEach_niche])
  show ?thesis
    using b niches_only_trans[OF b niches_only_growth]
    by (auto simp: trend_analyzeByNiche_def split: prod.splits option.splits)
qed

lemma popularity_analyzeByNiche:
  "popularity_of (snd (trend_analyzeByNiche ds s)) n
     = map_option (\<lambda>p. p + int (niche_count ds n))
         (if n \<in> set preferredNiches \<and> popularity_of s n = None then Some 0 else popularity_of s n)"
proof -
  define s0 where "s0 = foldl (\<lambda>s' niche. initNiche niche s') s preferredNiches"
  have a: "popularity_of (snd (forEach niche_item ds s0)) n
     = map_option (\<lambda>p. p + int (niche_count ds n))
         (if n \<in> set preferredNiches \<and> popularity_of s n = None then Some 0 else popularity_of s n)"
    unfolding popularity_forEach_niche s0_def popularity_init_all by simp
  show ?thesis
    using a unfolding trend_analyzeByNiche_def s0_def[symmetric]
    by (cases "forEach niche_item ds s0") (auto simp: popularity_growth split: option.splits)
qed

section \<open>The by-keyword pass\<close>

lemma keywords_onlyI:
  "s' = s\<lparr>tick := n, trendData := (trendData s)\<lparr>trend_keywords := m\<rparr>\<rparr> \<Longrightarrow> keywords_only s s'"
  unfolding keywords_only_def by blast

lemma products_onlyI:
  "s' = s\<lparr>tick := n, trendData := (trendData s)\<lparr>trend_products := m\<rparr>\<rparr> \<Longrightarrow> products_only s s'"
  unfolding products_only_def by blast

lemma view_count_mention:
  "entry_view (count_mention src related score t e)
     = (mentions e + 1, score, foldl (\<lambda>ks k. push_new k ks) (relatedKeywords e) related)"
  by (simp add: entry_view_def count_mention_def)

lemma inherited_key_update:
  "\<not> inherited_key m q \<Longrightarrow> inherited_key (m(q \<mapsto> e)) = inherited_key m"
  by (auto simp: inherited_key_def fun_eq_iff)

text \<open>One processed record: the entry of its keyword is created if missing and updated.\<close>

lemma keyword_item_processed:
  assumes "truthy (data it)" and "truthy (member_of (data it) ''results'')"
    and "truthy (member_of (data it) ''query'')"
    and "js_toLowerCase (member_of (data it) ''query'') = Inr q"
    and "\<not> inherited_key (trend_keywords (trendData s)) q"
  shows "\<exists>n e. keyword_item it s
           = (None, s\<lparr>tick := n, trendData := (trendData s)\<lparr>trend_keywords :=
                (trend_keywords (trendData s))(q \<mapsto> e)\<rparr>\<rparr>)
         \<and> Some (entry_view e)
           = view_step (keyword_related (engine_sort s) q) (map_option entry_view (trend_keywords (trendData s) q))
               (member_of (data it) ''results'')"
proof (cases "trend_keywords (trendData s) q")
  case None
  define e :: keyword_data where "e = count_mention (source it)
       (filter (\<lambda>k. k \<noteq> q) (extractKeywords (engine_sort s) (member_of (data it) ''results'')))
       (calculateSentiment (member_of (data it) ''results'')) (clock s (Suc (tick s)))
       \<lparr>mentions = 0, sentiment = 0, relatedKeywords = [], sources = [], lastUpdated = clock s (tick s)\<rparr>"
  have "keyword_item it s
           = (None, s\<lparr>tick := Suc (Suc (tick s)), trendData := (trendData s)\<lparr>trend_keywords :=
                (trend_keywords (trendData s))(q \<mapsto> e)\<rparr>\<rparr>)"
    using assms None
    by (simp add: keyword_item_def now_def Let_def update_entry_def e_def)
  moreover have "Some (entry_view e)
           = view_step (keyword_related (engine_sort s) q) (map_option entry_view (trend_keywords (trendData s) q))
               (member_of (data it) ''results'')"
    by (simp add: None view_step_def e_def view_count_mention keyword_related_def)
  ultimately show ?thesis
    by blast
next
  case (Some old)
  define e :: keyword_data where "e = count_mention (source it)
       (filter (\<lambda>k. k \<noteq> q) (extractKeywords (engine_sort s) (member_of (data it) ''results'')))
       (calculateSentiment (member_of (data it) ''results'')) (clock s (tick s)) old"
  have "keyword_item it s
           = (None, s\<lparr>tick := Suc (tick s), trendData := (trendData s)\<lparr>trend_keywords :=
                (trend_keywords (trendData s))(q \<mapsto> e)\<rparr>\<rparr>)"
    using assms Some
    by (simp add: keyword_item_def now_def Let_def update_entry_def e_def)
  moreover have "Some (entry_view e)
           = view_step (keyword_related (engine_sort s) q) (map_option entry_view (trend_keywords (trendData s) q))
               (member_of (data it) ''results'')"
    by (simp add: Some view_step_def e_def count_mention_def keyword_related_def entry_view_def)
  ultimately show ?thesis
    by blast
qed

text \<open>A record that is skipped, or on which the callback throws, changes nothing.\<close>

lemma keyword_item_other:
  assumes "\<not> (truthy (data it) \<and> truthy (member_of (data it) ''results'')
              \<and> truthy (member_of (data it) ''query''))
           \<or> (\<exists>e. js_toLowerCase (member_of (data it) ''query'') = Inl e)
           \<or> (\<exists>q. js_toLowerCase (member_of (data it) ''query'') = Inr q
                  \<and> inherited_key (trend_keywords (trendData s)) q)"
  shows "snd (keyword_item it s) = s"
  using assms by (auto simp: keyword_item_def split: sum.splits)

lemma keyword_item_cases:
  obtains (other) "snd (keyword_item it s) = s"
  | (processed) q n e where "\<not> inherited_key (trend_keywords (trendData s)) q"
      and "keyword_item it s
           = (None, s\<lparr>tick := n, trendData := (trendData s)\<lparr>trend_keywords :=
                (trend_keywords (trendData s))(q \<mapsto> e)\<rparr>\<rparr>)"
proof (cases "truthy (data it) \<and> truthy (member_of (data it) ''results'')
              \<and> truthy (member_of (data it) ''query'')")
  case False
  then show ?thesis
    using keyword_item_other[of it s] other by simp
next
  case True
  show ?thesis
  proof (cases "js_toLowerCase (member_of (data it) ''query'')")
    case (Inl e)
    then show ?thesis
      using keyword_item_other[of it s] other by simp
  next
    case (Inr q)
    show ?thesis
    proof (cases "inherited_key (trend_keywords (trendData s)) q")
      case True
      then show ?thesis
        using Inr keyword_item_other[of it s] other by simp
    next
      case False
      then show ?thesis
        using keyword_item_processed[of it q s] True Inr processed by blast
    qed
  qed
qed

lemma keywords_only_keyword_item: "keywords_only s (snd (keyword_item it s))"
proof (cases it s rule: keyword_item_cases)
  case other
  then show ?thesis
    by (simp add: keywords_only_refl)
next
  case (processed q n e)
  then show ?thesis
    by (auto intro: keywords_onlyI)
qed


lemma keywords_only_analyzeByKeyword: "keywords_only s (snd (trend_analyzeByKeyword ds s))"
proof -
  have "keywords_only s (snd (forEach keyword_item ds s))"
    by (rule forEach_preorder[where R = keywords_only])
       (auto intro: keywords_only_refl keywords_only_trans keywords_only_keyword_item)
  then show ?thesis
    by (auto simp: trend_analyzeByKeyword_def split: prod.splits option.splits)
qed





section \<open>The by-product pass\<close>

lemma product_step_processed:
  assumes "\<not> inherited_key (trend_products (trendData s)) (js_toString (member_of p ''id''))"
  shows "\<exists>n e. product_step it results p s
           = (None, s\<lparr>tick := n, trendData := (trendData s)\<lparr>trend_products :=
                (trend_products (trendData s))(js_toString (member_of p ''id'') \<mapsto> e)\<rparr>\<rparr>)
         \<and> Some (entry_view e)
           = view_step (extractKeywords (engine_sort s))
               (map_option entry_view (trend_products (trendData s) (js_toString (member_of p ''id''))))
               results"
proof (cases "trend_products (trendData s) (js_toString (member_of p ''id''))")
  case None
  define e :: product_data where "e = count_mention (source it) (extractKeywords (engine_sort s) results)
       (calculateSentiment results) (clock s (Suc (tick s)))
       \<lparr>mentions = 0, sentiment = 0, relatedKeywords = [], sources = [],
        lastUpdated = clock s (tick s), product = p\<rparr>"
  have "product_step it results p s
           = (None, s\<lparr>tick := Suc (Suc (tick s)), trendData := (trendData s)\<lparr>trend_products :=
                (trend_products (trendData s))(js_toString (member_of p ''id'') \<mapsto> e)\<rparr>\<rparr>)"
    using None assms by (simp add: product_step_def now_def Let_def update_entry_def e_def)
  moreover have "Some (entry_view e)
           = view_step (extractKeywords (engine_sort s))
               (map_option entry_view (trend_products (trendData s) (js_toString (member_of p ''id''))))
               results"
    by (simp add: None view_step_def e_def count_mention_def entry_view_def)
  ultimately show ?thesis
    by blast
next
  case (Some old)
  define e :: product_data where "e = count_mention (source it) (extractKeywords (engine_sort s) results)
       (calculateSentiment results) (clock s (tick s)) old"
  have "product_step it results p s
           = (None, s\<lparr>tick := Suc (tick s), trendData := (trendData s)\<lparr>trend_products :=
                (trend_products (trendData s))(js_toString (member_of p ''id'') \<mapsto> e)\<rparr>\<rparr>)"
    using Some assms by (simp add: product_step_def now_def Let_def update_entry_def e_def)
  moreover have "Some (entry_view e)
           = view_step (extractKeywords (engine_sort s))
               (map_option entry_view (trend_products (trendData s) (js_toString (member_of p ''id''))))
               results"
    by (simp add: Some view_step_def e_def count_mention_def entry_view_def)
  ultimately show ?thesis
    by blast
qed

lemma product_step_inherited:
  assumes "inherited_key (trend_products (trendData s)) (js_toString (member_of p ''id''))"
  shows "\<exists>e. product_step it results p s = (Some e, s)"
  using assms by (simp add: product_step_def)

lemma products_only_product_step: "products_only s (snd (product_step it results p s))"
proof (cases "inherited_key (trend_products (trendData s)) (js_toString (member_of p ''id''))")
  case True
  then show ?thesis
    using product_step_inherited[of s p it results] by (auto simp: products_only_refl)
next
  case False
  then show ?thesis
    using product_step_processed[of s p it results] by (auto intro: products_onlyI)
qed

lemma inherited_product_step:
  "inherited_key (trend_products (trendData (snd (product_step it results p s))))
     = inherited_key (trend_products (trendData s))"
proof (cases "inherited_key (trend_products (trendData s)) (js_toString (member_of p ''id''))")
  case True
  then show ?thesis
    using product_step_inherited[of s p it results] by auto
next
  case False
  then show ?thesis
    using product_step_processed[of s p it results] by (auto simp: inherited_key_update)
qed



lemma products_only_product_steps:
  "products_only s (snd (forEach (product_step it results) ps s))"
  by (rule forEach_preorder[where R = products_only])
     (auto intro: products_only_refl products_only_trans products_only_product_step)

lemma inherited_product_steps:
  "inherited_key (trend_products (trendData (snd (forEach (product_step it results) ps s))))
     = inherited_key (trend_products (trendData s))"
  by (rule forEach_preorder[where R = "\<lambda>s s'. inherited_key (trend_products (trendData s'))
                                              = inherited_key (trend_products (trendData s))"])
     (auto simp: inherited_product_step)





lemma product_item_eq:
  assumes "truthy (data it)" and "truthy (member_of (data it) ''results'')"
  shows "product_item it s
     = forEach (product_step it (member_of (data it) ''results''))
         (fst (extractProducts (member_of (data it) ''results'') s))
         (snd (extractProducts (member_of (data it) ''results'') s))"
  using assms by (simp add: product_item_def Let_def split: prod.splits)

lemma product_item_skip:
  assumes "\<not> (truthy (data it) \<and> truthy (member_of (data it) ''results''))"
  shows "product_item it s = (None, s)"
  using assms by (auto simp: product_item_def)

lemma products_only_product_item: "products_only s (snd (product_item it s))"
proof (cases "truthy (data it) \<and> truthy (member_of (data it) ''results'')")
  case True
  have a: "products_only s (snd (extractProducts (member_of (data it) ''results'') s))"
    by (rule world_products[OF world_only_extractProducts])
  show ?thesis
    using True products_only_trans[OF a products_only_product_steps] by (simp add: product_item_eq)
next
  case False
  then show ?thesis
    by (simp add: product_item_skip products_only_refl)
qed

lemma products_only_analyzeByProduct: "products_only s (snd (analyzeByProduct ds s))"
proof -
  have "products_only s (snd (forEach product_item ds s))"
    by (rule forEach_preorder[where R = products_only])
       (auto intro: products_only_refl products_only_trans products_only_product_item)
  then show ?thesis
    by (auto simp: analyzeByProduct_def split: prod.splits option.splits)
qed



section \<open>Folding the steps on an entry\<close>







section \<open>The passes together\<close>

lemma niches_only_frame:
  assumes "niches_only s s'"
  shows "keyword_entry s' = keyword_entry s" and "product_entry s' = product_entry s"
    and "initialized s' = initialized s" and "localStorage s' = localStorage s"
    and "trend_timeframes (trendData s') = trend_timeframes (trendData s)"
  using assms unfolding niches_only_def keyword_entry_def product_entry_def by auto

lemma keywords_only_frame:
  assumes "keywords_only s s'"
  shows "popularity_of s' = popularity_of s" and "product_entry s' = product_entry s"
    and "initialized s' = initialized s" and "localStorage s' = localStorage s"
    and "trend_niches (trendData s') = trend_niches (trendData s)"
  using assms unfolding keywords_only_def popularity_of_def product_entry_def by auto

lemma products_only_frame:
  assumes "products_only s s'"
  shows "popularity_of s' = popularity_of s" and "keyword_entry s' = keyword_entry s"
    and "initialized s' = initialized s" and "localStorage s' = localStorage s"
    and "trend_niches (trendData s') = trend_niches (trendData s)"
  using assms unfolding products_only_def popularity_of_def keyword_entry_def by auto






lemmas pass_frames =
  niches_only_frame[OF niches_only_analyzeByNiche]
  keywords_only_frame[OF keywords_only_analyzeByKeyword]
  products_only_frame[OF products_only_analyzeByProduct]

text \<open>The state after the three passes that the sources show.\<close>

lemma after_passes:
  "allData \<noteq> [] \<Longrightarrow>
   \<exists>tf st. snd (trend_analyzeAllData byTimeframe allData s)
     = (snd (analyzeByProduct allData (snd (trend_analyzeByKeyword allData
          (snd (trend_analyzeByNiche allData (trend_started s)))))))
       \<lparr>localStorage := st,
        trendData := (trendData (snd (analyzeByProduct allData (snd (trend_analyzeByKeyword allData
          (snd (trend_analyzeByNiche allData (trend_started s))))))))\<lparr>trend_timeframes := tf\<rparr>\<rparr>
     \<and> (st = localStorage (trend_started s)
          \<or> localStorage (trend_started s) \<noteq> None
            \<and> st = Some (Document ((trendData (snd (analyzeByProduct allData (snd (trend_analyzeByKeyword allData
          (snd (trend_analyzeByNiche allData (trend_started s))))))))\<lparr>trend_timeframes := tf\<rparr>)))"
proof -
  define s3 where "s3 = snd (analyzeByProduct allData (snd (trend_analyzeByKeyword allData
          (snd (trend_analyzeByNiche allData (trend_started s))))))"
  have ls: "localStorage s3 = localStorage (trend_started s)"
    unfolding s3_def by (simp add: pass_frames)
  obtain eo tf where bt: "byTimeframe allData (trend_timeframes (trendData s3)) = (eo, tf)"
    by (cases "byTimeframe allData (trend_timeframes (trendData s3))")
  assume ne: "allData \<noteq> []"
  have "\<exists>st. snd (trend_analyzeAllData byTimeframe allData s)
     = s3\<lparr>localStorage := st, trendData := (trendData s3)\<lparr>trend_timeframes := tf\<rparr>\<rparr>
     \<and> (st = localStorage (trend_started s)
          \<or> localStorage (trend_started s) \<noteq> None
            \<and> st = Some (Document ((trendData s3)\<lparr>trend_timeframes := tf\<rparr>)))"
  proof (cases eo)
    case (Some e)
    have "snd (trend_analyzeAllData byTimeframe allData s)
       = s3\<lparr>localStorage := localStorage (trend_started s),
             trendData := (trendData s3)\<lparr>trend_timeframes := tf\<rparr>\<rparr>"
      using ne bt Some ls[symmetric]
      by (simp add: trend_analyzeAllData_def trend_started_def[symmetric] s3_def[symmetric] Let_def)
    then show ?thesis by blast
  next
    case None
    show ?thesis
    proof (cases "localStorage (trend_started s)")
      case None1: None
      have "snd (trend_analyzeAllData byTimeframe allData s)
         = s3\<lparr>localStorage := localStorage (trend_started s),
               trendData := (trendData s3)\<lparr>trend_timeframes := tf\<rparr>\<rparr>"
        using ne bt None None1 ls
        by (simp add: trend_analyzeAllData_def trend_started_def[symmetric] s3_def[symmetric] Let_def
            trend_saveToStorage_def)
      then show ?thesis by blast
    next
      case (Some old)
      have "snd (trend_analyzeAllData byTimeframe allData s)
         = s3\<lparr>localStorage := Some (Document ((trendData s3)\<lparr>trend_timeframes := tf\<rparr>)),
               trendData := (trendData s3)\<lparr>trend_timeframes := tf\<rparr>\<rparr>"
        using ne bt None Some ls
        by (simp add: trend_analyzeAllData_def trend_started_def[symmetric] s3_def[symmetric] Let_def
            trend_saveToStorage_def)
      then show ?thesis using Some by blast
    qed
  qed
  then show ?thesis
    unfolding s3_def by blast
qed

lemma empty_pass: "snd (trend_analyzeAllData byTimeframe [] s) = trend_started s"
  by (simp add: trend_analyzeAllData_def trend_started_def)


lemma popularity_after_analyzeAllData:
  "popularity_of (snd (trend_analyzeAllData byTimeframe allData s)) n
     = (if allData = [] then popularity_of (trend_started s) n
        else map_option (\<lambda>p. p + int (niche_count allData n))
               (if n \<in> set preferredNiches \<and> popularity_of (trend_started s) n = None then Some 0
                else popularity_of (trend_started s) n))"
proof (cases "allData = []")
  case True
  then show ?thesis by (simp add: empty_pass)
next
  case False
  obtain tf st where e: "snd (trend_analyzeAllData byTimeframe allData s)
     = (snd (analyzeByProduct allData (snd (trend_analyzeByKeyword allData
          (snd (trend_analyzeByNiche allData (trend_started s)))))))
       \<lparr>localStorage := st,
        trendData := (trendData (snd (analyzeByProduct allData (snd (trend_analyzeByKeyword allData
          (snd (trend_analyzeByNiche allData (trend_started s))))))))\<lparr>trend_timeframes := tf\<rparr>\<rparr>"
    using after_passes[OF False, of byTimeframe s] by blast
  have "popularity_of (snd (trend_analyzeAllData byTimeframe allData s)) n
     = popularity_of (snd (analyzeByProduct allData (snd (trend_analyzeByKeyword allData
          (snd (trend_analyzeByNiche allData (trend_started s))))))) n"
    unfolding e by (simp add: popularity_of_def)
  then show ?thesis
    using False by (simp add: pass_frames popularity_analyzeByNiche)
qed





section \<open>The stored sentiment\<close>





text \<open>
  With a record between them whose query is \<open>Constructor\<close> and whose product is called
  \<open>toString\<close>, both passes end on that record: they report a failure, the complaint is not
  processed, and the stored sentiment is that of the praise.
\<close>

lemma sample_hits_inherited:
  "keyword_hits [praise_record, constructor_record, complaint_record] sample_trends ''ai''
     = [member_of (data praise_record) ''results'']"
  "product_hits [praise_record, constructor_record, complaint_record] sample_trends ''p1''
     = [member_of (data praise_record) ''results'']"
  by code_simp+

lemma pass_ends_on_inherited_name:
  "\<not> success (fst (trend_analyzeByKeyword [praise_record, constructor_record, complaint_record]
                     sample_trends))"
  "map_option sentiment
     (keyword_entry (snd (trend_analyzeByKeyword [praise_record, constructor_record, complaint_record]
                            sample_trends)) ''ai'') = Some 1"
  "map_option mentions
     (keyword_entry (snd (trend_analyzeByKeyword [praise_record, constructor_record, complaint_record]
                            sample_trends)) ''ai'') = Some 1"
  "keyword_entry (snd (trend_analyzeByKeyword [praise_record, constructor_record, complaint_record]
                         sample_trends)) ''constructor'' = None"
  "\<not> success (fst (analyzeByProduct [praise_record, constructor_record, complaint_record]
                     sample_trends))"
  "map_option sentiment
     (product_entry (snd (analyzeByProduct [praise_record, constructor_record, complaint_record]
                            sample_trends)) ''p1'') = Some 1"
  "product_entry (snd (analyzeByProduct [praise_record, constructor_record, complaint_record]
                         sample_trends)) ''toString'' = None"
  by code_simp+

section \<open>Repeating a pass\<close>

lemma settled_after_analyzeAllData: "settled (snd (trend_analyzeAllData byTimeframe allData s))"
proof -
  have st: "initialized (trend_started s) \<or> localStorage (trend_started s) = Some Unparsable"
    by (auto simp: trend_started_def trend_initialize_def split: option.splits stored.splits)
  show ?thesis
  proof (cases "allData = []")
    case True
    then show ?thesis
      using st by (auto simp: empty_pass settled_def)
  next
    case False
    define s3 where "s3 = snd (analyzeByProduct allData (snd (trend_analyzeByKeyword allData
          (snd (trend_analyzeByNiche allData (trend_started s))))))"
    obtain tf st' where e: "snd (trend_analyzeAllData byTimeframe allData s)
       = s3\<lparr>localStorage := st', trendData := (trendData s3)\<lparr>trend_timeframes := tf\<rparr>\<rparr>"
      and s: "st' = localStorage (trend_started s)
          \<or> localStorage (trend_started s) \<noteq> None
            \<and> st' = Some (Document ((trendData s3)\<lparr>trend_timeframes := tf\<rparr>))"
      using after_passes[OF False, of byTimeframe s] unfolding s3_def by blast
    have i: "initialized s3 = initialized (trend_started s)"
      unfolding s3_def by (simp add: pass_frames)
    show ?thesis
      using st s i by (auto simp: e settled_def)
  qed
qed

lemma started_settled: "settled s \<Longrightarrow> trendData (trend_started s) = trendData s"
  by (auto simp: settled_def trend_started_def trend_initialize_def split: option.splits stored.splits)


lemma popularity_defined:
  "allData \<noteq> [] \<Longrightarrow> n \<in> set preferredNiches \<Longrightarrow>
   \<exists>p. popularity_of (snd (trend_analyzeAllData byTimeframe allData s)) n = Some p"
  by (cases "popularity_of (trend_started s) n") (auto simp: popularity_after_analyzeAllData)









text \<open>
  The related keywords of a payload in which a word names a member of
  \<open>Object.prototype\<close>: \<open>__proto__\<close> is never a keyword, and the place of \<open>constructor\<close> is
  the engine's choice.
\<close>

lemma sample_words_inherited:
  "extractKeywords sample_engine (JStr ''alpha constructor __proto__ alpha'')
     = [''alpha'', ''constructor'']"
  "extractKeywords (\<lambda>entries. rev entries) (JStr ''alpha constructor __proto__ alpha'')
     = [''constructor'', ''alpha'']"
  "extractKeywords sample_engine (JStr ''beta alpha __proto__ alpha'') = [''alpha'', ''beta'']"
  by code_simp+

text \<open>
  With a record in between on which the by-keyword pass ends, each pass processes the
  first of the two records for \<open>ai\<close> only: two passes count two mentions.
\<close>

lemma sample_mentions_inherited:
  "map_option mentions
     (keyword_entry (snd (trend_analyzeByKeyword
        [praise_record, constructor_record, complaint_record]
        (snd (trend_analyzeByKeyword
                [praise_record, constructor_record, complaint_record] sample_trends)))) ''ai'')
     = Some 2"
  by code_simp

section \<open>Popularity never decreases\<close>

lemma started_invariant:
  assumes "popularity_invariant s"
  shows "(\<forall>n p. popularity_of (trend_started s) n = Some p \<longrightarrow> 0 \<le> p)"
    and "sound_document (localStorage (trend_started s))"
    and "\<forall>n p. popularity_of s n = Some p \<longrightarrow> popularity_of (trend_started s) n = Some p"
proof -
  show "\<forall>n p. popularity_of (trend_started s) n = Some p \<longrightarrow> 0 \<le> p"
    using assms
    by (auto simp: popularity_invariant_def trend_started_def trend_initialize_def sound_document_def
        popularity_of_def split: option.splits stored.splits)
  show "sound_document (localStorage (trend_started s))"
    using assms
    by (auto simp: popularity_invariant_def trend_started_def trend_initialize_def
        split: option.splits stored.splits)
  show "\<forall>n p. popularity_of s n = Some p \<longrightarrow> popularity_of (trend_started s) n = Some p"
    using assms started_settled[of s]
    by (auto simp: popularity_invariant_def popularity_of_def)
qed

lemma invariant_step:
  assumes "popularity_invariant s"
  shows "popularity_invariant (snd (trend_analyzeAllData byTimeframe allData s))"
    and "\<forall>n p. popularity_of s n = Some p \<longrightarrow>
           (\<exists>p'. popularity_of (snd (trend_analyzeAllData byTimeframe allData s)) n = Some p' \<and> p \<le> p')"
proof -
  define s' where "s' = snd (trend_analyzeAllData byTimeframe allData s)"
  have nonneg: "\<forall>n p. popularity_of s' n = Some p \<longrightarrow> 0 \<le> p"
    using started_invariant(1)[OF assms]
    unfolding s'_def popularity_after_analyzeAllData
    by (auto split: if_splits)
  have doc: "sound_document (localStorage s')"
  proof (cases "allData = []")
    case True
    then show ?thesis
      unfolding s'_def using started_invariant(2)[OF assms] by (simp add: empty_pass)
  next
    case False
    define s3 where "s3 = snd (analyzeByProduct allData (snd (trend_analyzeByKeyword allData
          (snd (trend_analyzeByNiche allData (trend_started s))))))"
    obtain tf st' where e: "s' = s3\<lparr>localStorage := st', trendData := (trendData s3)\<lparr>trend_timeframes := tf\<rparr>\<rparr>"
      and st: "st' = localStorage (trend_started s)
          \<or> localStorage (trend_started s) \<noteq> None
            \<and> st' = Some (Document ((trendData s3)\<lparr>trend_timeframes := tf\<rparr>))"
      using after_passes[OF False, of byTimeframe s] unfolding s3_def s'_def by blast
    have "\<forall>n e. map_of (trend_niches (trendData s')) n = Some e \<longrightarrow> 0 \<le> popularity e"
      using nonneg unfolding popularity_of_def by auto
    then show ?thesis
      using st started_invariant(2)[OF assms] by (auto simp: e sound_document_def)
  qed
  have "settled s'"
    unfolding s'_def by (rule settled_after_analyzeAllData)
  then show "popularity_invariant (snd (trend_analyzeAllData byTimeframe allData s))"
    using nonneg doc unfolding popularity_invariant_def s'_def by blast
  show "\<forall>n p. popularity_of s n = Some p \<longrightarrow>
           (\<exists>p'. popularity_of (snd (trend_analyzeAllData byTimeframe allData s)) n = Some p' \<and> p \<le> p')"
    using started_invariant(3)[OF assms]
    unfolding popularity_after_analyzeAllData by auto
qed

lemma invariant_constructor:
  "sound_document st \<Longrightarrow> popularity_invariant (TrendAnalysisService c u r srt st tf0)"
  by (simp add: popularity_invariant_def TrendAnalysisService_def popularity_of_def)

lemma invariant_passes:
  "popularity_invariant s \<Longrightarrow> popularity_invariant (trend_passes byTimeframe snapshots s)"
  by (induction snapshots arbitrary: s) (auto simp: invariant_step(1))

text \<open>
  Claim C6: start from a new service whose persisted document, if there is one, is
  sound, and run \<open>analyzeAllData\<close> on any succession of snapshots (a growing record set
  is one).  After every pass each popularity is at least \<open>0\<close>, after a pass on a non-empty
  snapshot every configured niche has one, and no pass decreases a popularity.
\<close>

theorem popularity_nonnegative_and_monotone:
  assumes "sound_document st"
  shows "(\<forall>n p. popularity_of (snd (trend_analyzeAllData byTimeframe allData
                    (trend_passes byTimeframe snapshots (TrendAnalysisService c u r srt st tf0)))) n = Some p
            \<longrightarrow> 0 \<le> p)
       \<and> (allData \<noteq> [] \<longrightarrow> (\<forall>n \<in> set preferredNiches.
            \<exists>p. popularity_of (snd (trend_analyzeAllData byTimeframe allData
                    (trend_passes byTimeframe snapshots (TrendAnalysisService c u r srt st tf0)))) n = Some p))
       \<and> (\<forall>n p. popularity_of (trend_passes byTimeframe snapshots (TrendAnalysisService c u r srt st tf0)) n = Some p
            \<longrightarrow> (\<exists>p'. popularity_of (snd (trend_analyzeAllData byTimeframe allData
                    (trend_passes byTimeframe snapshots (TrendAnalysisService c u r srt st tf0)))) n = Some p'
                    \<and> p \<le> p'))"
proof -
  define s where "s = trend_passes byTimeframe snapshots (TrendAnalysisService c u r srt st tf0)"
  have inv: "popularity_invariant s"
    unfolding s_def by (rule invariant_passes[OF invariant_constructor[OF assms]])
  have a: "\<forall>n p. popularity_of (snd (trend_analyzeAllData byTimeframe allData s)) n = Some p \<longrightarrow> 0 \<le> p"
    using invariant_step(1)[OF inv, of byTimeframe allData] unfolding popularity_invariant_def by blast
  have b: "allData \<noteq> [] \<longrightarrow> (\<forall>n \<in> set preferredNiches.
            \<exists>p. popularity_of (snd (trend_analyzeAllData byTimeframe allData s)) n = Some p)"
    using popularity_defined by blast
  have c: "\<forall>n p. popularity_of s n = Some p
            \<longrightarrow> (\<exists>p'. popularity_of (snd (trend_analyzeAllData byTimeframe allData s)) n = Some p' \<and> p \<le> p')"
    by (rule invariant_step(2)[OF inv])
  show ?thesis
    using a b c unfolding s_def by blast
qed

lemma sample_popularity:
  "popularity_of (trend_passes no_timeframes [[sample_record]] sample_trends) ''AI & Automation Tools''
     = Some 1"
  by code_simp

theorem popularity_nonnegative_and_monotone_witness:
  "sound_document (None :: unit trend_data stored option)
   \<and> popularity_of (trend_passes no_timeframes [[sample_record]] sample_trends)
        ''AI & Automation Tools'' = Some 1
   \<and> (\<exists>p'. popularity_of (snd (trend_analyzeAllData no_timeframes [sample_record, sample_record]
                (trend_passes no_timeframes [[sample_record]] sample_trends)))
              ''AI & Automation Tools'' = Some p'
            \<and> 1 \<le> p')"
proof -
  have h: "sound_document (None :: unit trend_data stored option)"
    by (simp add: sound_document_def)
  show ?thesis
    using h sample_popularity
      popularity_nonnegative_and_monotone
        [OF h, of no_timeframes "[sample_record, sample_record]" "[[sample_record]]"
           sample_clock sample_uid sample_random sample_engine "()"]
    unfolding sample_trends_def by blast
qed


section \<open>A keyword in the serialised payload\<close>











section \<open>One Twitter record, end to end\<close>












end
